theory Spec2Isabelle
  imports Main
begin

section \<open>JavaScript strings\<close>

text \<open>
  A JavaScript string is a sequence of UTF-16 code units; it is modelled as the list of
  their values. \<open>js\<close> embeds an ASCII literal of the source.
\<close>

type_synonym jsstring = "nat list"

definition js :: "string \<Rightarrow> jsstring" where
  "js s = map of_char s"

text \<open>
  \<open>String.prototype.trim\<close> removes WhiteSpace and LineTerminator code points from both
  ends: TAB, LF, VT, FF, CR, SPACE, NBSP, U+1680, U+2000..U+200A, U+2028, U+2029, U+202F,
  U+205F, U+3000 and U+FEFF.
\<close>

definition isWhiteSpace :: "nat \<Rightarrow> bool" where
  "isWhiteSpace c =
     (c \<in> {9, 10, 11, 12, 13, 32, 160, 5760, 8232, 8233, 8239, 8287, 12288, 65279}
      \<or> (8192 \<le> c \<and> c \<le> 8202))"

definition trim :: "jsstring \<Rightarrow> jsstring" where
  "trim s = rev (dropWhile isWhiteSpace (rev (dropWhile isWhiteSpace s)))"

text \<open>\<open>!message || !message.trim()\<close> on a string: the empty string is the only falsy one.\<close>

definition blank :: "jsstring \<Rightarrow> bool" where
  "blank message = (message = [] \<or> trim message = [])"

text \<open>\<open>list.join(sep)\<close>\<close>

fun join :: "jsstring \<Rightarrow> jsstring list \<Rightarrow> jsstring" where
  "join sep [] = []"
| "join sep [x] = x"
| "join sep (x # y # ys) = x @ sep @ join sep (y # ys)"

text \<open>The decimal numeral a template literal prints for a non-negative integer.\<close>

fun decimal :: "nat \<Rightarrow> jsstring" where
  "decimal n = (if n < 10 then [48 + n] else decimal (n div 10) @ [48 + n mod 10])"

declare decimal.simps [simp del]

text \<open>\<open>file.split('/').pop()\<close>: what follows the last slash (the whole string without one).\<close>

definition lastSegment :: "jsstring \<Rightarrow> jsstring" where
  "lastSegment file = rev (takeWhile (\<lambda>c. c \<noteq> 47) (rev file))"

text \<open>\<open>name.replace(/[^a-zA-Z0-9]/g, '-')\<close>\<close>

definition isAlnum :: "nat \<Rightarrow> bool" where
  "isAlnum c = ((97 \<le> c \<and> c \<le> 122) \<or> (65 \<le> c \<and> c \<le> 90) \<or> (48 \<le> c \<and> c \<le> 57))"

definition sanitize :: "jsstring \<Rightarrow> jsstring" where
  "sanitize name = map (\<lambda>c. if isAlnum c then c else 45) name"

subsection \<open>The regular expressions of the message generator\<close>

text \<open>
  Every pattern of \<open>generateCommitMessage\<close> is an alternation of literals of lower-case
  ASCII letters and dots, with flag \<open>i\<close> and no flag \<open>u\<close>. Under that flag a code unit
  matches a pattern letter iff it is the letter or its ASCII capital (canonicalisation
  never maps a code unit of 128 or more to an ASCII one); a dot in a class matches itself.
\<close>

definition ciEq :: "nat \<Rightarrow> nat \<Rightarrow> bool" where
  "ciEq p c = (c = p \<or> (97 \<le> p \<and> p \<le> 122 \<and> c + 32 = p))"

fun matchHere :: "jsstring \<Rightarrow> jsstring \<Rightarrow> bool" where
  "matchHere [] s = True"
| "matchHere (p # ps) [] = False"
| "matchHere (p # ps) (c # cs) = (ciEq p c \<and> matchHere ps cs)"

text \<open>An unanchored literal: it matches somewhere in the subject.\<close>

fun contains :: "jsstring \<Rightarrow> jsstring \<Rightarrow> bool" where
  "contains pat [] = matchHere pat []"
| "contains pat (c # cs) = (matchHere pat (c # cs) \<or> contains pat cs)"

text \<open>A literal followed by \<open>$\<close> (no flag \<open>m\<close>): it matches at the end of the subject.\<close>

definition endsWith :: "jsstring \<Rightarrow> jsstring \<Rightarrow> bool" where
  "endsWith pat s = matchHere (rev pat) (rev s)"

definition reTest :: "jsstring \<Rightarrow> bool" where
  "reTest file = (contains (js ''test'') file \<or> contains (js ''spec'') file)"

definition reDocs :: "jsstring \<Rightarrow> bool" where
  "reDocs file = endsWith (js ''.md'') file"

definition reStyle :: "jsstring \<Rightarrow> bool" where
  "reStyle file =
     (endsWith (js ''.css'') file \<or> endsWith (js ''.scss'') file \<or> endsWith (js ''.less'') file)"

definition reChore :: "jsstring \<Rightarrow> bool" where
  "reChore file =
     (contains (js ''package.json'') file \<or> contains (js ''tsconfig'') file
      \<or> contains (js ''config'') file \<or> endsWith (js ''.jsonc'') file)"

definition reFeat :: "jsstring \<Rightarrow> bool" where
  "reFeat file =
     (contains (js ''src'') file \<or> contains (js ''component'') file
      \<or> contains (js ''feature'') file \<or> contains (js ''page'') file)"

section \<open>The basic commit message of the webview script\<close>

text \<open>
  \<open>generateCommitMessage\<close> of the page script. Its inputs are the \<open>data-file\<close>
  attributes of the list items with \<open>data-status="staged"\<close> and of those with
  \<open>data-status="untracked"\<close>, in document order.
\<close>

datatype category = Feat | Fix | Docs | Style | Test | Chore | Refactor

fun typeName :: "category \<Rightarrow> jsstring" where
  "typeName Feat = js ''feat''"
| "typeName Fix = js ''fix''"
| "typeName Docs = js ''docs''"
| "typeName Style = js ''style''"
| "typeName Test = js ''test''"
| "typeName Chore = js ''chore''"
| "typeName Refactor = js ''refactor''"

text \<open>The \<open>if\<close> chain of the \<open>forEach\<close> body; \<open>isNew = allUntracked.includes(file)\<close>.\<close>

definition categorize :: "jsstring list \<Rightarrow> jsstring \<Rightarrow> category" where
  "categorize allUntracked file =
     (let isNew = (file \<in> set allUntracked) in
      if reTest file then Test
      else if reDocs file then Docs
      else if reStyle file then Style
      else if reChore file then Chore
      else if isNew \<and> reFeat file then Feat
      else if \<not> isNew then Fix
      else Refactor)"

text \<open>
  The object literal \<open>categories\<close>: its keys in the order they are written, which is the
  order \<open>Object.entries\<close> walks them in.
\<close>

type_synonym categories = "(category \<times> jsstring list) list"

definition emptyCategories :: categories where
  "emptyCategories =
     [(Feat, []), (Fix, []), (Docs, []), (Style, []), (Test, []), (Chore, []), (Refactor, [])]"

definition push :: "category \<Rightarrow> jsstring \<Rightarrow> categories \<Rightarrow> categories" where
  "push c filename cats = map (\<lambda>(k, l). if k = c then (k, l @ [filename]) else (k, l)) cats"

definition categorizeAll :: "jsstring list \<Rightarrow> jsstring list \<Rightarrow> categories" where
  "categorizeAll files allUntracked =
     foldl (\<lambda>cats file. push (categorize allUntracked file) (lastSegment file) cats)
       emptyCategories files"

definition renderMessage :: "category \<Rightarrow> jsstring list \<Rightarrow> jsstring" where
  "renderMessage t fileList =
     (let fileNames = join (js '', '') (take 3 fileList);
          extra = (if length fileList > 3
                   then js '' +'' @ decimal (length fileList - 3) @ js '' more'' else [])
      in typeName t @ js '': '' @ fileNames @ extra)"

definition generateCommitMessage :: "jsstring list \<Rightarrow> jsstring list \<Rightarrow> jsstring" where
  "generateCommitMessage files allUntracked =
     (if files = [] then js ''chore: update files''
      else case find (\<lambda>(t, fileList). fileList \<noteq> []) (categorizeAll files allUntracked) of
             Some (t, fileList) \<Rightarrow> renderMessage t fileList
           | None \<Rightarrow> js ''chore: update files'')"

text \<open>
  The order of the \<open>if\<close> chain, with the condition under which a file qualifies for each
  category, and the order of the keys of \<open>categories\<close>.
\<close>

definition precedence :: "category list" where
  "precedence = [Test, Docs, Style, Chore, Feat, Fix, Refactor]"

definition qualifies :: "jsstring list \<Rightarrow> jsstring \<Rightarrow> category \<Rightarrow> bool" where
  "qualifies allUntracked file c =
     (case c of
        Test \<Rightarrow> reTest file
      | Docs \<Rightarrow> reDocs file
      | Style \<Rightarrow> reStyle file
      | Chore \<Rightarrow> reChore file
      | Feat \<Rightarrow> file \<in> set allUntracked \<and> reFeat file
      | Fix \<Rightarrow> file \<notin> set allUntracked
      | Refactor \<Rightarrow> True)"

definition entriesOrder :: "category list" where
  "entriesOrder = [Feat, Fix, Docs, Style, Test, Chore, Refactor]"

text \<open>The staged files of a category, in their order.\<close>

definition filesOf :: "jsstring list \<Rightarrow> jsstring list \<Rightarrow> category \<Rightarrow> jsstring list" where
  "filesOf files allUntracked c = filter (\<lambda>file. categorize allUntracked file = c) files"

section \<open>Data of the collaborators\<close>

text \<open>
  The types \<open>GitStatus\<close>, \<open>Branch\<close> and \<open>CommitInfo\<close> are imported from
  \<open>gitOperations\<close>; their fields are the ones this file reads.
\<close>

record GitStatus =
  branch :: jsstring
  ahead :: nat
  behind :: nat
  staged :: "jsstring list"
  unstaged :: "jsstring list"
  untracked :: "jsstring list"

record Branch =
  name :: jsstring
  current :: bool
  remote :: bool

record CommitInfo =
  hash :: jsstring
  author :: jsstring
  date :: jsstring
  message :: jsstring
  refs :: jsstring

text \<open>
  A thrown value: whether it is an instance of \<open>LanguageModelGenerationError\<close>, its
  \<open>name\<close> and its \<open>message\<close>.
\<close>

datatype jserror = JsError (lmInstance: bool) (errorName: jsstring) (errorMessage: jsstring)

text \<open>The mutating calls of \<open>gitOperations\<close>, each resolving to no value.\<close>

datatype gitOp =
    GitStageFiles "jsstring list"
  | GitStageAll
  | GitUnstageFiles "jsstring list"
  | GitCommit jsstring
  | GitPush
  | GitPull
  | GitFetch
  | GitDiscardChanges "jsstring list"
  | GitCreateBranch jsstring
  | GitCheckoutBranch jsstring
  | GitDeleteBranch jsstring

text \<open>The editor calls of \<open>_handleOpenDiff\<close> and \<open>_handleOpenCommitDiff\<close>, by file or hash.\<close>

datatype editorOp =
    FsStat jsstring
  | GitOpenChange jsstring
  | VscodeDiff jsstring
  | ShowTextDocument jsstring
  | CommitDetailsPanelShow jsstring

text \<open>
  An awaited message box: \<open>showWarningMessage\<close> or \<open>showErrorMessage\<close> with items. It
  resolves to the item chosen, or to \<open>undefined\<close> when it is dismissed.
\<close>

datatype severity = Warning | Failure

datatype dialog = Dialog (level: severity) (question: jsstring) (modal: bool) (items: "jsstring list")

text \<open>
  The collaborators, over a state \<open>'e\<close> of everything outside the provider (the
  repository, the remote, the user, the language model, the clock). A call takes that state
  to its result, thrown (\<open>Inl\<close>) or returned (\<open>Inr\<close>), and to the state it leaves.
\<close>

record 'e collaborators =
  dateNow :: "'e \<Rightarrow> int"
  isGitRepository :: "'e \<Rightarrow> (jserror + bool) \<times> 'e"
  getGitStatus :: "'e \<Rightarrow> (jserror + GitStatus) \<times> 'e"
  git :: "gitOp \<Rightarrow> 'e \<Rightarrow> (jserror + unit) \<times> 'e"
  getBranches :: "'e \<Rightarrow> (jserror + Branch list) \<times> 'e"
  getCurrentBranch :: "'e \<Rightarrow> (jserror + jsstring) \<times> 'e"
  getCommitHistory :: "nat \<Rightarrow> 'e \<Rightarrow> (jserror + CommitInfo list) \<times> 'e"
  generateDetailedCommitMessage :: "GitStatus \<Rightarrow> nat \<Rightarrow> 'e \<Rightarrow> (jserror + jsstring) \<times> 'e"
  generateFallbackMessage :: "GitStatus \<Rightarrow> jsstring"
  showDialog :: "dialog \<Rightarrow> 'e \<Rightarrow> jsstring option \<times> 'e"
  workspaceFolders :: "'e \<Rightarrow> nat option"
  editor :: "editorOp \<Rightarrow> 'e \<Rightarrow> (jserror + unit) \<times> 'e"

section \<open>The presentation surface\<close>

text \<open>
  What \<open>_getHtmlContent\<close> renders: the markup is a function of these values, and the
  script reads them back from the elements.
\<close>

record page =
  isGitRepo :: bool
  status :: "GitStatus option"
  localBranches :: "Branch list"
  remoteBranches :: "Branch list"
  currentBranch :: jsstring
  commits :: "CommitInfo list"
  currentTab :: jsstring

text \<open>Outbound events, the \<open>postMessage\<close> objects by their \<open>type\<close>.\<close>

datatype outbound =
    ClearLoading jsstring
  | ClearAllLoading
  | CommitMessageGenerated jsstring

text \<open>
  The webview: the page it shows (\<open>None\<close> is the page of \<open>_getLoadingHtml\<close>, which has
  no script), the ids of the elements of class \<open>loading\<close>, and the value of the
  \<open>commitMessage\<close> textarea.
\<close>

record webview =
  html :: "page option"
  loading :: "jsstring set"
  commitMessage :: jsstring

text \<open>
  \<open>document.getElementById\<close> finds an element, for the ids the script asks for: the four
  action buttons when a status is rendered, the commit box when a file is staged, the
  branch input and rows, the refresh button of the commits tab, and \<open>loadMoreBtn\<close> from
  twenty commits on.
\<close>

definition branchId :: "jsstring \<Rightarrow> jsstring" where
  "branchId branchName = js ''branch-'' @ sanitize branchName"

definition hasElement :: "page option \<Rightarrow> jsstring \<Rightarrow> bool" where
  "hasElement pg elementId =
     (case pg of
        None \<Rightarrow> False
      | Some p \<Rightarrow>
          isGitRepo p \<and>
          ((case status p of
              None \<Rightarrow> False
            | Some st \<Rightarrow>
                elementId \<in> {js ''pullBtn'', js ''pushBtn'', js ''fetchBtn'', js ''refreshBtn''}
                \<or> (staged st \<noteq> [] \<and>
                    elementId \<in> {js ''generateMsgBtn'', js ''commitMessageLoader'',
                                  js ''commitMessage'', js ''commitBtn'', js ''commitPushBtn''}))
           \<or> elementId \<in> {js ''newBranchName'', js ''addBtn'', js ''refreshBtn''}
           \<or> elementId \<in> set (map (\<lambda>b. branchId (name b)) (localBranches p))
           \<or> (20 \<le> length (commits p) \<and> elementId = js ''loadMoreBtn'')))"

definition showLoading :: "jsstring \<Rightarrow> webview \<Rightarrow> webview" where
  "showLoading buttonId v =
     (if hasElement (html v) buttonId then v\<lparr>loading := insert buttonId (loading v)\<rparr> else v)"

definition clearLoading :: "jsstring \<Rightarrow> webview \<Rightarrow> webview" where
  "clearLoading buttonId v =
     (if hasElement (html v) buttonId then v\<lparr>loading := loading v - {buttonId}\<rparr> else v)"

definition setLoading :: "jsstring \<Rightarrow> bool \<Rightarrow> webview \<Rightarrow> webview" where
  "setLoading elementId isLoading v =
     (if \<not> hasElement (html v) elementId then v
      else if isLoading then v\<lparr>loading := insert elementId (loading v)\<rparr>
      else v\<lparr>loading := loading v - {elementId}\<rparr>)"

definition allLoadingIds :: "jsstring list" where
  "allLoadingIds =
     [js ''pushBtn'', js ''pullBtn'', js ''fetchBtn'', js ''refreshBtn'', js ''commitBtn'',
      js ''commitPushBtn'', js ''loadMoreBtn'', js ''addBtn'', js ''generateMsgBtn'']"

text \<open>The \<open>message\<close> listener of the script; the loading page has none.\<close>

definition onMessage :: "outbound \<Rightarrow> webview \<Rightarrow> webview" where
  "onMessage m v =
     (if html v = None then v
      else case m of
        ClearLoading buttonId \<Rightarrow> (if buttonId \<noteq> [] then clearLoading buttonId v else v)
      | ClearAllLoading \<Rightarrow> foldl (\<lambda>u i. clearLoading i u) v allLoadingIds
      | CommitMessageGenerated text \<Rightarrow>
          (if hasElement (html v) (js ''commitMessage'') \<and> text \<noteq> []
           then v\<lparr>commitMessage := text\<rparr> else v))"

text \<open>
  Assigning \<open>webview.html\<close> loads a new document: no element is of class \<open>loading\<close>,
  and the \<open>DOMContentLoaded\<close> listener fills the empty textarea with the basic message
  when there is a textarea and a staged item.
\<close>

definition stagedItems :: "page \<Rightarrow> jsstring list" where
  "stagedItems p =
     (case status p of Some st \<Rightarrow> (if isGitRepo p then staged st else []) | None \<Rightarrow> [])"

definition untrackedItems :: "page \<Rightarrow> jsstring list" where
  "untrackedItems p =
     (case status p of Some st \<Rightarrow> (if isGitRepo p then untracked st else []) | None \<Rightarrow> [])"

definition loadDocument :: "page option \<Rightarrow> webview" where
  "loadDocument pg =
     \<lparr>html = pg, loading = {},
      commitMessage =
        (case pg of
           None \<Rightarrow> []
         | Some p \<Rightarrow>
             (if hasElement pg (js ''commitMessage'') \<and> stagedItems p \<noteq> []
              then generateCommitMessage (stagedItems p) (untrackedItems p) else []))\<rparr>"

section \<open>The provider and its world\<close>

text \<open>
  The fields of \<open>RepositoryProvider\<close>. \<open>view\<close> says whether the field is set;
  \<open>fileWatcher\<close> holds a watcher, live (\<open>Some True\<close>) or disposed; \<open>refreshTimeout\<close>
  holds the handle \<open>setTimeout\<close> returned and \<open>generationCancelToken\<close> the token
  source, by its number.
\<close>

record RepositoryProvider =
  view :: bool
  fileWatcher :: "bool option"
  refreshTimeout :: "nat option"
  isVisible :: bool
  cachedStatus :: "GitStatus option"
  lastRefresh :: int
  activeTab :: jsstring
  commitsLimit :: nat
  generationCancelToken :: "nat option"

definition newProvider :: RepositoryProvider where
  "newProvider =
     \<lparr>view = False, fileWatcher = None, refreshTimeout = None, isVisible = False,
      cachedStatus = None, lastRefresh = 0, activeTab = js ''changes'', commitsLimit = 20,
      generationCancelToken = None\<rparr>"

text \<open>What a handler does to the outside, in the order it does it.\<close>

datatype backendCall =
    IsGitRepository
  | GetGitStatus
  | GetBranches
  | GetCurrentBranch
  | GetCommitHistory nat
  | Git gitOp
  | GenerateDetailedCommitMessage GitStatus nat
  | Editor editorOp

datatype effect =
    Call backendCall
  | ShowInformationMessage jsstring
  | ShowWarningMessage jsstring
  | ShowErrorMessage jsstring bool
  | Asked dialog "jsstring option"
  | PostMessage outbound
  | SetHtml "page option"
  | NewTokenSource nat
  | CancelToken nat
  | DisposeToken nat
  | SetTimeout nat int
  | ClearTimeout nat
  | TimeoutFired nat int
  | WatcherCreated
  | WatcherDisposed

text \<open>
  The world of one provider: its fields, the webview, the state of the collaborators, the
  timers that are set and have neither fired nor been cleared (handle and due time), the
  next fresh handle, and the effects so far.
\<close>

record 'e world =
  provider :: RepositoryProvider
  surface :: webview
  env :: 'e
  timers :: "(nat \<times> int) list"
  nextHandle :: nat
  effects :: "effect list"

definition newWorld :: "'e \<Rightarrow> 'e world" where
  "newWorld e =
     \<lparr>provider = newProvider, surface = loadDocument None, env = e, timers = [],
      nextHandle = 0, effects = []\<rparr>"

subsection \<open>Asynchronous functions\<close>

text \<open>
  An \<open>async\<close> function run to its end: from a world to the value it resolves to
  (\<open>Inr\<close>) or the error it rejects with (\<open>Inl\<close>), and the world it leaves.
\<close>

type_synonym ('a, 'e) task = "'e world \<Rightarrow> (jserror + 'a) \<times> 'e world"

definition resolve :: "'a \<Rightarrow> ('a, 'e) task" where
  "resolve x w = (Inr x, w)"

definition andThen :: "('a, 'e) task \<Rightarrow> ('a \<Rightarrow> ('b, 'e) task) \<Rightarrow> ('b, 'e) task" where
  "andThen m k w = (case m w of (Inl err, w') \<Rightarrow> (Inl err, w') | (Inr x, w') \<Rightarrow> k x w')"

definition act :: "('e world \<Rightarrow> 'e world) \<Rightarrow> (unit, 'e) task" where
  "act f w = (Inr (), f w)"

definition emit :: "effect \<Rightarrow> 'e world \<Rightarrow> 'e world" where
  "emit x w = w\<lparr>effects := effects w @ [x]\<rparr>"

text \<open>An awaited call of a collaborator.\<close>

definition call :: "('e \<Rightarrow> (jserror + 'a) \<times> 'e) \<Rightarrow> backendCall \<Rightarrow> ('a, 'e) task" where
  "call f label w = (case f (env w) of (r, e') \<Rightarrow> (r, emit (Call label) (w\<lparr>env := e'\<rparr>)))"

definition ask :: "'e collaborators \<Rightarrow> dialog \<Rightarrow> 'e world \<Rightarrow> jsstring option \<times> 'e world" where
  "ask C d w =
     (case showDialog C d (env w) of (r, e') \<Rightarrow> (r, emit (Asked d r) (w\<lparr>env := e'\<rparr>)))"

text \<open>\<open>this._view.webview.postMessage\<close>, delivered to the script's listener.\<close>

definition postMessage :: "outbound \<Rightarrow> 'e world \<Rightarrow> 'e world" where
  "postMessage m w = emit (PostMessage m) (w\<lparr>surface := onMessage m (surface w)\<rparr>)"

text \<open>\<open>if (this._view) { this._view.webview.postMessage(...) }\<close>\<close>

definition postIfView :: "outbound \<Rightarrow> 'e world \<Rightarrow> 'e world" where
  "postIfView m w = (if view (provider w) then postMessage m w else w)"

definition setHtml :: "page option \<Rightarrow> 'e world \<Rightarrow> 'e world" where
  "setHtml pg w = emit (SetHtml pg) (w\<lparr>surface := loadDocument pg\<rparr>)"

subsection \<open>Loading the content\<close>

text \<open>The local variables of \<open>_getHtmlContent\<close>.\<close>

record fetched =
  fIsGitRepo :: bool
  fStatus :: "GitStatus option"
  fBranches :: "Branch list"
  fCurrentBranch :: jsstring
  fCommits :: "CommitInfo list"

text \<open>
  The cached status is served when there is one and \<open>Date.now() - this._lastRefresh\<close>
  is below 2000; otherwise \<open>getGitStatus\<close> is awaited and its result cached.
\<close>

definition statusCached :: "'e collaborators \<Rightarrow> (GitStatus, 'e) task" where
  "statusCached C w =
     (case cachedStatus (provider w) of
        Some st \<Rightarrow>
          (if dateNow C (env w) - lastRefresh (provider w) < 2000 then (Inr st, w)
           else andThen (call (getGitStatus C) GetGitStatus)
                  (\<lambda>s w'. (Inr s, w'\<lparr>provider := (provider w')\<lparr>cachedStatus := Some s\<rparr>\<rparr>)) w)
      | None \<Rightarrow>
          andThen (call (getGitStatus C) GetGitStatus)
            (\<lambda>s w'. (Inr s, w'\<lparr>provider := (provider w')\<lparr>cachedStatus := Some s\<rparr>\<rparr>)) w)"

text \<open>
  The \<open>try\<close> block of \<open>_getHtmlContent\<close>. Its \<open>catch\<close> is empty, so a call that throws
  ends the block with the variables assigned so far.
\<close>

definition fetchAll :: "'e collaborators \<Rightarrow> 'e world \<Rightarrow> fetched \<times> 'e world" where
  "fetchAll C w0 =
     (let f0 = \<lparr>fIsGitRepo = False, fStatus = None, fBranches = [], fCurrentBranch = [],
                fCommits = []\<rparr>
      in case call (isGitRepository C) IsGitRepository w0 of
        (Inl _, w1) \<Rightarrow> (f0, w1)
      | (Inr r, w1) \<Rightarrow>
          (let f1 = f0\<lparr>fIsGitRepo := r\<rparr> in
           if \<not> r then (f1, w1)
           else case statusCached C w1 of
             (Inl _, w2) \<Rightarrow> (f1, w2)
           | (Inr st, w2) \<Rightarrow>
               (let f2 = f1\<lparr>fStatus := Some st\<rparr> in
                case call (getBranches C) GetBranches w2 of
                  (Inl _, w3) \<Rightarrow> (f2, w3)
                | (Inr bs, w3) \<Rightarrow>
                    (let f3 = f2\<lparr>fBranches := bs\<rparr> in
                     case call (getCurrentBranch C) GetCurrentBranch w3 of
                       (Inl _, w4) \<Rightarrow> (f3, w4)
                     | (Inr cb, w4) \<Rightarrow>
                         (let f4 = f3\<lparr>fCurrentBranch := cb\<rparr>;
                              limit = commitsLimit (provider w4)
                          in case call (getCommitHistory C limit) (GetCommitHistory limit) w4 of
                            (Inl _, w5) \<Rightarrow> (f4, w5)
                          | (Inr cs, w5) \<Rightarrow> (f4\<lparr>fCommits := cs\<rparr>, w5))))))"

definition getHtmlContent :: "'e collaborators \<Rightarrow> 'e world \<Rightarrow> page \<times> 'e world" where
  "getHtmlContent C w0 =
     (case fetchAll C w0 of
        (f, w) \<Rightarrow>
          (\<lparr>isGitRepo = fIsGitRepo f, status = fStatus f,
            localBranches = filter (\<lambda>b. \<not> remote b) (fBranches f),
            remoteBranches = filter remote (fBranches f),
            currentBranch = fCurrentBranch f, commits = fCommits f,
            currentTab = activeTab (provider w)\<rparr>, w))"

definition loadContent :: "'e collaborators \<Rightarrow> (unit, 'e) task" where
  "loadContent C w =
     (if \<not> view (provider w) then (Inr (), w)
      else if \<not> isVisible (provider w) \<and> lastRefresh (provider w) > 0 then (Inr (), w)
      else case getHtmlContent C
                  (w\<lparr>provider := (provider w)\<lparr>lastRefresh := dateNow C (env w)\<rparr>\<rparr>) of
             (pg, w') \<Rightarrow> (Inr (), setHtml (Some pg) w'))"

definition refresh :: "'e collaborators \<Rightarrow> (unit, 'e) task" where
  "refresh C w = loadContent C (w\<lparr>provider := (provider w)\<lparr>cachedStatus := None\<rparr>\<rparr>)"

subsection \<open>The command handlers\<close>

definition thenDo :: "(unit, 'e) task \<Rightarrow> ('b, 'e) task \<Rightarrow> ('b, 'e) task" where
  "thenDo m k = andThen m (\<lambda>_. k)"

definition tryCatch :: "('a, 'e) task \<Rightarrow> (jserror \<Rightarrow> ('a, 'e) task) \<Rightarrow> ('a, 'e) task" where
  "tryCatch m h w = (case m w of (Inl err, w') \<Rightarrow> h err w' | (Inr x, w') \<Rightarrow> (Inr x, w'))"

definition gitCall :: "'e collaborators \<Rightarrow> gitOp \<Rightarrow> (unit, 'e) task" where
  "gitCall C op = call (git C op) (Git op)"

definition editorCall :: "'e collaborators \<Rightarrow> editorOp \<Rightarrow> (unit, 'e) task" where
  "editorCall C op = call (editor C op) (Editor op)"

definition info :: "jsstring \<Rightarrow> (unit, 'e) task" where
  "info text = act (emit (ShowInformationMessage text))"

definition warn :: "jsstring \<Rightarrow> (unit, 'e) task" where
  "warn text = act (emit (ShowWarningMessage text))"

definition post :: "outbound \<Rightarrow> (unit, 'e) task" where
  "post m = act (postIfView m)"

definition handleStageAll :: "'e collaborators \<Rightarrow> (unit, 'e) task" where
  "handleStageAll C =
     thenDo (gitCall C GitStageAll)
    (thenDo (info (js ''All changes staged''))
            (refresh C))"

definition handleStageFile :: "'e collaborators \<Rightarrow> jsstring \<Rightarrow> (unit, 'e) task" where
  "handleStageFile C file = thenDo (gitCall C (GitStageFiles [file])) (refresh C)"

definition handleUnstageFile :: "'e collaborators \<Rightarrow> jsstring \<Rightarrow> (unit, 'e) task" where
  "handleUnstageFile C file = thenDo (gitCall C (GitUnstageFiles [file])) (refresh C)"

definition handleCommit :: "'e collaborators \<Rightarrow> jsstring \<Rightarrow> (unit, 'e) task" where
  "handleCommit C msg =
     (if blank msg
      then thenDo (warn (js ''Commit message cannot be empty''))
                  (post (ClearLoading (js ''commitBtn'')))
      else thenDo (gitCall C (GitCommit msg))
          (thenDo (info (js ''Changes committed''))
          (thenDo (refresh C)
                  (post (ClearLoading (js ''commitBtn''))))))"

definition handleCommitAndPush :: "'e collaborators \<Rightarrow> jsstring \<Rightarrow> (unit, 'e) task" where
  "handleCommitAndPush C msg =
     (if blank msg
      then thenDo (warn (js ''Commit message cannot be empty''))
                  (post (ClearLoading (js ''commitPushBtn'')))
      else thenDo (gitCall C (GitCommit msg))
          (thenDo (info (js ''Changes committed''))
          (thenDo (gitCall C GitPush)
          (thenDo (info (js ''Pushed to remote''))
          (thenDo (refresh C)
                  (post (ClearLoading (js ''commitPushBtn''))))))))"

definition handlePush :: "'e collaborators \<Rightarrow> (unit, 'e) task" where
  "handlePush C =
     thenDo (gitCall C GitPush)
    (thenDo (info (js ''Pushed to remote''))
    (thenDo (refresh C)
            (post (ClearLoading (js ''pushBtn'')))))"

definition handlePull :: "'e collaborators \<Rightarrow> (unit, 'e) task" where
  "handlePull C =
     thenDo (gitCall C GitPull)
    (thenDo (info (js ''Pulled from remote''))
    (thenDo (refresh C)
            (post (ClearLoading (js ''pullBtn'')))))"

definition handleFetch :: "'e collaborators \<Rightarrow> (unit, 'e) task" where
  "handleFetch C =
     thenDo (gitCall C GitFetch)
    (thenDo (info (js ''Fetched from remote''))
    (thenDo (refresh C)
            (post (ClearLoading (js ''fetchBtn'')))))"

definition quoted :: "jsstring \<Rightarrow> jsstring \<Rightarrow> jsstring \<Rightarrow> jsstring" where
  "quoted prefix x suffix = prefix @ js [CHR 0x27] @ x @ js [CHR 0x27] @ suffix"

definition handleDiscard :: "'e collaborators \<Rightarrow> jsstring \<Rightarrow> (unit, 'e) task" where
  "handleDiscard C file w =
     (case ask C (Dialog Warning (quoted (js ''Discard changes in '') file (js ''?'')) True
                    [js ''Discard'']) w of
        (confirm, w') \<Rightarrow>
          (if confirm = Some (js ''Discard'')
           then thenDo (gitCall C (GitDiscardChanges [file]))
               (thenDo (info (js ''Changes discarded''))
                       (refresh C)) w'
           else (Inr (), w')))"

text \<open>
  \<open>workspaceFolders[0].uri\<close> on an empty array throws a \<open>TypeError\<close>, outside the
  \<open>try\<close>.
\<close>

definition typeError :: "string \<Rightarrow> jserror" where
  "typeError property =
     JsError False (js ''TypeError'')
       (quoted (js ''Cannot read properties of undefined (reading '') (js property) (js '')''))"

definition handleOpenDiff :: "'e collaborators \<Rightarrow> jsstring \<Rightarrow> (unit, 'e) task" where
  "handleOpenDiff C file w =
     (case workspaceFolders C (env w) of
        None \<Rightarrow> (Inr (), w)
      | Some n \<Rightarrow>
          (if n = 0 then (Inl (typeError ''uri''), w)
           else tryCatch
                  (thenDo (editorCall C (FsStat file))
                          (tryCatch (editorCall C (GitOpenChange file))
                             (\<lambda>gitError. editorCall C (VscodeDiff file))))
                  (\<lambda>error.
                     tryCatch (editorCall C (ShowTextDocument file))
                       (\<lambda>openError.
                          act (emit (ShowErrorMessage
                                 (js ''Failed to open file: '' @ errorMessage openError) False))))
                  w))"

definition handleCreateBranch :: "'e collaborators \<Rightarrow> jsstring \<Rightarrow> (unit, 'e) task" where
  "handleCreateBranch C branchName =
     (if blank branchName then warn (js ''Branch name cannot be empty'')
      else thenDo (gitCall C (GitCreateBranch branchName))
          (thenDo (info (quoted (js ''Branch '') branchName (js '' created'')))
                  (refresh C)))"

definition handleSwitchBranch :: "'e collaborators \<Rightarrow> jsstring \<Rightarrow> (unit, 'e) task" where
  "handleSwitchBranch C branchName =
     thenDo (gitCall C (GitCheckoutBranch branchName))
    (thenDo (info (quoted (js ''Switched to branch '') branchName []))
            (refresh C))"

definition handleDeleteBranch :: "'e collaborators \<Rightarrow> jsstring \<Rightarrow> (unit, 'e) task" where
  "handleDeleteBranch C branchName w =
     (case ask C (Dialog Warning (quoted (js ''Delete branch '') branchName (js ''?'')) True
                    [js ''Delete'']) w of
        (confirm, w') \<Rightarrow>
          (if confirm = Some (js ''Delete'')
           then thenDo (gitCall C (GitDeleteBranch branchName))
               (thenDo (info (quoted (js ''Branch '') branchName (js '' deleted'')))
                       (refresh C)) w'
           else (Inr (), w')))"

definition handleLoadMore :: "'e collaborators \<Rightarrow> (unit, 'e) task" where
  "handleLoadMore C w = loadContent C (w\<lparr>provider := (provider w)\<lparr>commitsLimit := 50\<rparr>\<rparr>)"

definition handleOpenCommitDiff :: "'e collaborators \<Rightarrow> jsstring \<Rightarrow> (unit, 'e) task" where
  "handleOpenCommitDiff C commitHash =
     tryCatch (editorCall C (CommitDetailsPanelShow commitHash))
       (\<lambda>error. act (emit (ShowErrorMessage
                            (js ''Failed to open commit: '' @ errorMessage error) False)))"

subsection \<open>Generating a commit message\<close>

text \<open>
  \<open>_handleGenerateCommitMessage\<close> suspends at four \<open>await\<close>s, and other handlers run
  while it is suspended. A suspended handler is the \<open>await\<close> it stands at with the local
  variables it still needs: the first \<open>getGitStatus\<close>, the generation (with the status
  and the token passed to it), the \<open>getGitStatus\<close> of the \<open>catch\<close> block (with the
  error caught) and the message box of the \<open>catch\<close> block.
\<close>

datatype generation =
    AwaitStatus
  | AwaitGeneration GitStatus nat
  | AwaitFallbackStatus jserror
  | AwaitAnswer jserror GitStatus

definition newTokenSource :: "'e world \<Rightarrow> 'e world" where
  "newTokenSource w =
     (let t = nextHandle w
      in emit (NewTokenSource t)
           (w\<lparr>nextHandle := t + 1,
              provider := (provider w)\<lparr>generationCancelToken := Some t\<rparr>\<rparr>))"

text \<open>
  While the handler is suspended, a call is in two parts: it is issued, which is booked
  among the effects at once, and later it completes, which takes the outside to the
  result and to the state the call leaves.
\<close>

definition issue :: "backendCall \<Rightarrow> 'e world \<Rightarrow> 'e world" where
  "issue label w = emit (Call label) w"

definition complete :: "('e \<Rightarrow> (jserror + 'a) \<times> 'e) \<Rightarrow> ('a, 'e) task" where
  "complete f w = (case f (env w) of (r, e') \<Rightarrow> (r, w\<lparr>env := e'\<rparr>))"

text \<open>
  The handler up to its first \<open>await\<close>: it creates the token source and calls
  \<open>getGitStatus\<close>.
\<close>

definition generationStart :: "'e world \<Rightarrow> generation option \<times> 'e world" where
  "generationStart w =
     (if \<not> view (provider w) then (None, w)
      else (Some AwaitStatus, issue GetGitStatus (newTokenSource w)))"

text \<open>The \<open>finally\<close> block.\<close>

definition generationFinally :: "'e world \<Rightarrow> 'e world" where
  "generationFinally w =
     (case generationCancelToken (provider w) of
        Some t \<Rightarrow> emit (DisposeToken t)
                    (w\<lparr>provider := (provider w)\<lparr>generationCancelToken := None\<rparr>\<rparr>)
      | None \<Rightarrow> w)"

definition isLanguageModelGenerationError :: "jserror \<Rightarrow> bool" where
  "isLanguageModelGenerationError error =
     (lmInstance error \<or> errorName error = js ''LanguageModelGenerationError'')"

definition fallbackDialog :: "jserror \<Rightarrow> dialog" where
  "fallbackDialog error =
     (if isLanguageModelGenerationError error
      then Dialog Warning
             (js ''AI commit message generation is not available. Would you like a simple message based on file names?'')
             False [js ''Yes'']
      else Dialog Failure
             (js ''Failed to generate AI commit message: ''
              @ (if errorMessage error \<noteq> [] then errorMessage error else js ''Unknown error'')
              @ js ''. Would you like a simple message?'')
             False [js ''Yes'', js ''Cancel''])"

text \<open>
  The awaited call completes and the handler runs on to its next \<open>await\<close>
  (\<open>Inr (Some _)\<close>), issuing the call it then waits for, or to its end (\<open>Inr None\<close>), or
  to the error it rejects with. \<open>this._generationCancelToken.token\<close> is read after the
  first \<open>await\<close>, from the field as it is then; on a field that is \<open>undefined\<close> the read
  throws inside the \<open>try\<close>. Both branches of the \<open>catch\<close> start with \<open>getGitStatus\<close>.
  The message box of the \<open>catch\<close> is booked when it is answered, with its answer.
\<close>

fun generationResume ::
  "'e collaborators \<Rightarrow> generation \<Rightarrow> 'e world \<Rightarrow> (jserror + generation option) \<times> 'e world"
where
  "generationResume C AwaitStatus w =
     (case complete (getGitStatus C) w of
        (Inl error, w') \<Rightarrow> (Inr (Some (AwaitFallbackStatus error)), issue GetGitStatus w')
      | (Inr st, w') \<Rightarrow>
          (case generationCancelToken (provider w') of
             None \<Rightarrow>
               (Inr (Some (AwaitFallbackStatus (typeError ''token''))), issue GetGitStatus w')
           | Some t \<Rightarrow>
               (Inr (Some (AwaitGeneration st t)),
                issue (GenerateDetailedCommitMessage st t) w')))"
| "generationResume C (AwaitGeneration st t) w =
     (case complete (generateDetailedCommitMessage C st t) w of
        (Inl error, w') \<Rightarrow> (Inr (Some (AwaitFallbackStatus error)), issue GetGitStatus w')
      | (Inr text, w') \<Rightarrow>
          (Inr None,
           generationFinally
             (postMessage (ClearLoading (js ''generateMsgBtn''))
               (postMessage (CommitMessageGenerated text) w'))))"
| "generationResume C (AwaitFallbackStatus error) w =
     (case complete (getGitStatus C) w of
        (Inl error', w') \<Rightarrow> (Inl error', generationFinally w')
      | (Inr st, w') \<Rightarrow> (Inr (Some (AwaitAnswer error st)), w'))"
| "generationResume C (AwaitAnswer error st) w =
     (case ask C (fallbackDialog error) w of
        (result, w') \<Rightarrow>
          (Inr None,
           generationFinally
             (postIfView (ClearLoading (js ''generateMsgBtn''))
               (if result = Some (js ''Yes'')
                then postIfView (CommitMessageGenerated (generateFallbackMessage C st)) w'
                else w'))))"

fun stage :: "generation \<Rightarrow> nat" where
  "stage AwaitStatus = 3"
| "stage (AwaitGeneration st t) = 2"
| "stage (AwaitFallbackStatus error) = 1"
| "stage (AwaitAnswer error st) = 0"

text \<open>The handler run without another handler in between.\<close>

function generationRun :: "'e collaborators \<Rightarrow> generation \<Rightarrow> (unit, 'e) task" where
  "generationRun C g w =
     (case generationResume C g w of
        (Inl error, w') \<Rightarrow> (Inl error, w')
      | (Inr None, w') \<Rightarrow> (Inr (), w')
      | (Inr (Some g'), w') \<Rightarrow> generationRun C g' w')"
  by pat_completeness auto
termination
proof (relation "measure (\<lambda>(C, g, w). stage g)")
  show "wf (measure (\<lambda>(C, g, w). stage g))"
    by simp
next
  fix C :: "'e collaborators" and g w r w' o' g'
  assume "(r, w') = generationResume C g w" and "r = Inr o'" and "o' = Some g'"
  then have "generationResume C g w = (Inr (Some g'), w')"
    by simp
  then have "stage g' < stage g"
    by (cases g) (auto split: prod.splits sum.splits option.splits)
  then show "((C, g', w'), C, g, w) \<in> measure (\<lambda>(C, g, w). stage g)"
    by simp
qed

declare generationRun.simps [simp del]

definition handleGenerateCommitMessage :: "'e collaborators \<Rightarrow> (unit, 'e) task" where
  "handleGenerateCommitMessage C w =
     (case generationStart w of
        (None, w') \<Rightarrow> (Inr (), w')
      | (Some g, w') \<Rightarrow> generationRun C g w')"

definition handleStopGeneration :: "'e collaborators \<Rightarrow> (unit, 'e) task" where
  "handleStopGeneration C w =
     (Inr (),
      postIfView (ClearLoading (js ''generateMsgBtn''))
        (case generationCancelToken (provider w) of
           Some t \<Rightarrow> emit (CancelToken t) w
         | None \<Rightarrow> w))"

subsection \<open>The dispatcher\<close>

datatype command =
    SwitchTab jsstring
  | Refresh
  | StageAll
  | StageFile jsstring
  | UnstageFile jsstring
  | Commit jsstring
  | CommitAndPush jsstring
  | Push
  | Pull
  | Fetch
  | Discard jsstring
  | OpenDiff jsstring
  | CreateBranch jsstring
  | SwitchBranch jsstring
  | DeleteBranch jsstring
  | LoadMore
  | OpenCommitDiff jsstring
  | GenerateCommitMessage
  | StopGeneration
  | Other jsstring

text \<open>The \<open>switch\<close> on \<open>data.type\<close>; it has no \<open>default\<close>.\<close>

fun handle :: "'e collaborators \<Rightarrow> command \<Rightarrow> (unit, 'e) task" where
  "handle C (SwitchTab tab) = act (\<lambda>w. w\<lparr>provider := (provider w)\<lparr>activeTab := tab\<rparr>\<rparr>)"
| "handle C Refresh = thenDo (refresh C) (post (ClearLoading (js ''refreshBtn'')))"
| "handle C StageAll = handleStageAll C"
| "handle C (StageFile file) = handleStageFile C file"
| "handle C (UnstageFile file) = handleUnstageFile C file"
| "handle C (Commit msg) = handleCommit C msg"
| "handle C (CommitAndPush msg) = handleCommitAndPush C msg"
| "handle C Push = handlePush C"
| "handle C Pull = handlePull C"
| "handle C Fetch = handleFetch C"
| "handle C (Discard file) = handleDiscard C file"
| "handle C (OpenDiff file) = handleOpenDiff C file"
| "handle C (CreateBranch branchName) = handleCreateBranch C branchName"
| "handle C (SwitchBranch branchName) = handleSwitchBranch C branchName"
| "handle C (DeleteBranch branchName) = handleDeleteBranch C branchName"
| "handle C LoadMore = handleLoadMore C"
| "handle C (OpenCommitDiff commitHash) = handleOpenCommitDiff C commitHash"
| "handle C GenerateCommitMessage = handleGenerateCommitMessage C"
| "handle C StopGeneration = handleStopGeneration C"
| "handle C (Other t) = resolve ()"

definition isPushError :: "command \<Rightarrow> bool" where
  "isPushError data = (data = Push \<or> (case data of CommitAndPush msg \<Rightarrow> True | _ \<Rightarrow> False))"

text \<open>The listener of \<open>onDidReceiveMessage\<close>: the \<open>switch\<close> inside \<open>try\<close>, and the \<open>catch\<close>.\<close>

definition onDidReceiveMessage :: "'e collaborators \<Rightarrow> command \<Rightarrow> 'e world \<Rightarrow> 'e world" where
  "onDidReceiveMessage C data w =
     (case handle C data w of
        (Inr _, w') \<Rightarrow> w'
      | (Inl error, w') \<Rightarrow>
          postIfView ClearAllLoading
            (emit (ShowErrorMessage (js ''GitShift: '' @ errorMessage error) (isPushError data)) w'))"

subsection \<open>The page script's functions that show a loading state\<close>

text \<open>
  Each sets the class \<open>loading\<close> and posts its command, which the listener above
  handles. The value typed into the branch input is the argument of
  \<open>createNewBranchWithLoading\<close>; the commit functions read the textarea.
\<close>

definition onSurface :: "(webview \<Rightarrow> webview) \<Rightarrow> 'e world \<Rightarrow> 'e world" where
  "onSurface f w = w\<lparr>surface := f (surface w)\<rparr>"

definition refreshWithLoading :: "'e collaborators \<Rightarrow> 'e world \<Rightarrow> 'e world" where
  "refreshWithLoading C w =
     onDidReceiveMessage C Refresh (onSurface (showLoading (js ''refreshBtn'')) w)"

definition commitOnlyWithLoading :: "'e collaborators \<Rightarrow> 'e world \<Rightarrow> 'e world" where
  "commitOnlyWithLoading C w =
     (if \<not> hasElement (html (surface w)) (js ''commitMessage'') then w
      else let msg = trim (commitMessage (surface w)) in
        if msg = [] then w
        else onDidReceiveMessage C (Commit msg) (onSurface (showLoading (js ''commitBtn'')) w))"

definition commitAndPushWithLoading :: "'e collaborators \<Rightarrow> 'e world \<Rightarrow> 'e world" where
  "commitAndPushWithLoading C w =
     (if \<not> hasElement (html (surface w)) (js ''commitMessage'') then w
      else let msg = trim (commitMessage (surface w)) in
        if msg = [] then w
        else onDidReceiveMessage C (CommitAndPush msg)
               (onSurface (showLoading (js ''commitPushBtn'')) w))"

definition pushWithLoading :: "'e collaborators \<Rightarrow> 'e world \<Rightarrow> 'e world" where
  "pushWithLoading C w = onDidReceiveMessage C Push (onSurface (showLoading (js ''pushBtn'')) w)"

definition pullWithLoading :: "'e collaborators \<Rightarrow> 'e world \<Rightarrow> 'e world" where
  "pullWithLoading C w = onDidReceiveMessage C Pull (onSurface (showLoading (js ''pullBtn'')) w)"

definition fetchWithLoading :: "'e collaborators \<Rightarrow> 'e world \<Rightarrow> 'e world" where
  "fetchWithLoading C w = onDidReceiveMessage C Fetch (onSurface (showLoading (js ''fetchBtn'')) w)"

definition createNewBranchWithLoading :: "'e collaborators \<Rightarrow> jsstring \<Rightarrow> 'e world \<Rightarrow> 'e world" where
  "createNewBranchWithLoading C typed w =
     (let branchName = trim typed in
      if branchName = [] then w
      else onDidReceiveMessage C (CreateBranch branchName)
             (onSurface (setLoading (js ''addBtn'') True) w))"

definition switchToBranchWithLoading :: "'e collaborators \<Rightarrow> jsstring \<Rightarrow> 'e world \<Rightarrow> 'e world" where
  "switchToBranchWithLoading C branchName w =
     onDidReceiveMessage C (SwitchBranch branchName)
       (onSurface (setLoading (branchId branchName) True) w)"

definition removeBranchWithLoading :: "'e collaborators \<Rightarrow> jsstring \<Rightarrow> 'e world \<Rightarrow> 'e world" where
  "removeBranchWithLoading C branchName w =
     onDidReceiveMessage C (DeleteBranch branchName)
       (onSurface (setLoading (branchId branchName) True) w)"

definition loadMoreWithLoading :: "'e collaborators \<Rightarrow> 'e world \<Rightarrow> 'e world" where
  "loadMoreWithLoading C w =
     onDidReceiveMessage C LoadMore (onSurface (setLoading (js ''loadMoreBtn'') True) w)"

definition fillCommitMessage :: "'e collaborators \<Rightarrow> 'e world \<Rightarrow> 'e world" where
  "fillCommitMessage C w =
     (if \<not> hasElement (html (surface w)) (js ''commitMessage'') then w
      else onDidReceiveMessage C GenerateCommitMessage
             (onSurface (showLoading (js ''generateMsgBtn'')) w))"

definition stopGeneration :: "'e collaborators \<Rightarrow> 'e world \<Rightarrow> 'e world" where
  "stopGeneration C w =
     onDidReceiveMessage C StopGeneration (onSurface (clearLoading (js ''generateMsgBtn'')) w)"

subsection \<open>Visibility, the file watcher and its timer\<close>

text \<open>The listener of \<open>onDidChangeVisibility\<close>; \<open>_loadContent\<close> is not awaited.\<close>

definition onDidChangeVisibility :: "'e collaborators \<Rightarrow> bool \<Rightarrow> 'e world \<Rightarrow> 'e world" where
  "onDidChangeVisibility C visible w =
     (let w1 = w\<lparr>provider := (provider w)\<lparr>isVisible := visible\<rparr>\<rparr> in
      if visible \<and> dateNow C (env w1) - lastRefresh (provider w1) > 2000
      then snd (loadContent C w1) else w1)"

text \<open>\<open>resolveWebviewView\<close>, for a view that is visible or not.\<close>

definition resolveWebviewView :: "'e collaborators \<Rightarrow> bool \<Rightarrow> 'e world \<Rightarrow> 'e world" where
  "resolveWebviewView C visible w =
     (let w1 = setHtml None (w\<lparr>provider := (provider w)\<lparr>view := True, isVisible := visible\<rparr>\<rparr>) in
      if visible then snd (loadContent C w1) else w1)"

definition clearTimeout :: "nat \<Rightarrow> 'e world \<Rightarrow> 'e world" where
  "clearTimeout h w = emit (ClearTimeout h) (w\<lparr>timers := filter (\<lambda>(k, due). k \<noteq> h) (timers w)\<rparr>)"

text \<open>
  \<open>debouncedRefresh\<close>, called at time \<open>now\<close>: the timer it sets is due 1000 ms later.
\<close>

definition debouncedRefresh :: "int \<Rightarrow> 'e world \<Rightarrow> 'e world" where
  "debouncedRefresh now w =
     (let w1 = (case refreshTimeout (provider w) of Some h \<Rightarrow> clearTimeout h w | None \<Rightarrow> w);
          h = nextHandle w1
      in emit (SetTimeout h (now + 1000))
           (w1\<lparr>timers := timers w1 @ [(h, now + 1000)], nextHandle := h + 1,
               provider := (provider w1)\<lparr>refreshTimeout := Some h\<rparr>\<rparr>))"

text \<open>The callback given to \<open>setTimeout\<close>; \<open>refresh\<close> is not awaited.\<close>

definition refreshTimeoutCallback :: "'e collaborators \<Rightarrow> 'e world \<Rightarrow> 'e world" where
  "refreshTimeoutCallback C w =
     (let w1 = w\<lparr>provider := (provider w)\<lparr>cachedStatus := None\<rparr>\<rparr> in
      if isVisible (provider w1) then snd (refresh C w1) else w1)"

text \<open>A pending timer fires: it leaves the pending ones and its callback runs.\<close>

definition fire :: "'e collaborators \<Rightarrow> nat \<Rightarrow> 'e world \<Rightarrow> 'e world" where
  "fire C h w =
     (case map_of (timers w) h of
        None \<Rightarrow> w
      | Some due \<Rightarrow>
          refreshTimeoutCallback C
            (emit (TimeoutFired h due)
               (w\<lparr>timers := filter (\<lambda>(k, d). k \<noteq> h) (timers w)\<rparr>)))"

definition startFileWatcher :: "'e collaborators \<Rightarrow> 'e world \<Rightarrow> 'e world" where
  "startFileWatcher C w =
     (let w1 = (case fileWatcher (provider w) of
                  Some live \<Rightarrow> emit WatcherDisposed (w\<lparr>provider := (provider w)\<lparr>fileWatcher := None\<rparr>\<rparr>)
                | None \<Rightarrow> w)
      in case workspaceFolders C (env w1) of
           None \<Rightarrow> w1
         | Some n \<Rightarrow>
             (if n = 0 then w1
              else emit WatcherCreated (w1\<lparr>provider := (provider w1)\<lparr>fileWatcher := Some True\<rparr>\<rparr>)))"

definition dispose :: "'e world \<Rightarrow> 'e world" where
  "dispose w =
     (let w1 = (case fileWatcher (provider w) of
                  Some live \<Rightarrow> emit WatcherDisposed (w\<lparr>provider := (provider w)\<lparr>fileWatcher := Some False\<rparr>\<rparr>)
                | None \<Rightarrow> w)
      in case refreshTimeout (provider w1) of Some h \<Rightarrow> clearTimeout h w1 | None \<Rightarrow> w1)"

subsection \<open>Sessions\<close>

text \<open>
  What can happen to a provider: the host resolves the view or changes its visibility,
  the webview posts a command, the watcher is started, a file changes, a timer that is due
  fires, the provider is disposed, or the outside moves on by itself.
\<close>

datatype 'e event =
    ResolveWebviewView bool
  | ReceiveMessage command
  | ChangeVisibility bool
  | StartFileWatcher
  | FileChanged
  | TimeoutElapsed nat
  | Dispose
  | Outside "'e \<Rightarrow> 'e"

fun step :: "'e collaborators \<Rightarrow> 'e event \<Rightarrow> 'e world \<Rightarrow> 'e world" where
  "step C (ResolveWebviewView visible) w = resolveWebviewView C visible w"
| "step C (ReceiveMessage data) w = (if view (provider w) then onDidReceiveMessage C data w else w)"
| "step C (ChangeVisibility visible) w =
     (if view (provider w) then onDidChangeVisibility C visible w else w)"
| "step C StartFileWatcher w = startFileWatcher C w"
| "step C FileChanged w =
     (if fileWatcher (provider w) = Some True then debouncedRefresh (dateNow C (env w)) w else w)"
| "step C (TimeoutElapsed h) w =
     (case map_of (timers w) h of
        None \<Rightarrow> w
      | Some due \<Rightarrow> (if due \<le> dateNow C (env w) then fire C h w else w))"
| "step C Dispose w = dispose w"
| "step C (Outside f) w = w\<lparr>env := f (env w)\<rparr>"

definition run :: "'e collaborators \<Rightarrow> 'e event list \<Rightarrow> 'e world \<Rightarrow> 'e world" where
  "run C evs w = foldl (\<lambda>u ev. step C ev u) w evs"

subsection \<open>A burst of file changes on a time line\<close>

text \<open>
  File changes at the times \<open>ts\<close>, in order. A timer fires at its due time: before a
  change at time \<open>t\<close> is delivered, every pending timer due by \<open>t\<close> has fired. When
  nothing more happens, the timers still pending fire (\<open>quiesce\<close>).
\<close>

definition fireDue :: "'e collaborators \<Rightarrow> (int \<Rightarrow> bool) \<Rightarrow> 'e world \<Rightarrow> 'e world" where
  "fireDue C isDue w =
     foldl (\<lambda>u (h, due). fire C h u) w (filter (\<lambda>(h, due). isDue due) (timers w))"

fun fileChanges :: "'e collaborators \<Rightarrow> int list \<Rightarrow> 'e world \<Rightarrow> 'e world" where
  "fileChanges C [] w = w"
| "fileChanges C (t # ts) w = fileChanges C ts (debouncedRefresh t (fireDue C (\<lambda>due. due \<le> t) w))"

definition quiesce :: "'e collaborators \<Rightarrow> 'e world \<Rightarrow> 'e world" where
  "quiesce C w = fireDue C (\<lambda>due. True) w"

text \<open>
  Times in order, each less than the quiet period of 1000 ms after the one before.
\<close>

fun withinQuietPeriod :: "int list \<Rightarrow> bool" where
  "withinQuietPeriod (t # u # ts) = (t \<le> u \<and> u - t < 1000 \<and> withinQuietPeriod (u # ts))"
| "withinQuietPeriod ts = True"

text \<open>The times at which the timer's callback ran.\<close>

definition invalidations :: "effect list \<Rightarrow> int list" where
  "invalidations es = concat (map (\<lambda>x. case x of TimeoutFired h due \<Rightarrow> [due] | _ \<Rightarrow> []) es)"

subsection \<open>Reading the effects\<close>

text \<open>The calls of collaborators among some effects, and the error messages shown.\<close>

definition calls :: "effect list \<Rightarrow> backendCall list" where
  "calls es = concat (map (\<lambda>x. case x of Call c \<Rightarrow> [c] | _ \<Rightarrow> []) es)"

definition errorsShown :: "effect list \<Rightarrow> (jsstring \<times> bool) list" where
  "errorsShown es =
     concat (map (\<lambda>x. case x of ShowErrorMessage text isModal \<Rightarrow> [(text, isModal)] | _ \<Rightarrow> []) es)"

definition posted :: "effect list \<Rightarrow> outbound list" where
  "posted es = concat (map (\<lambda>x. case x of PostMessage m \<Rightarrow> [m] | _ \<Rightarrow> []) es)"

text \<open>The effects added on the way from one world to a later one.\<close>

definition since :: "'e world \<Rightarrow> 'e world \<Rightarrow> effect list" where
  "since w w' = drop (length (effects w)) (effects w')"

abbreviation limit :: "'e world \<Rightarrow> nat" where
  "limit w \<equiv> commitsLimit (provider w)"

abbreviation fired :: "'e world \<Rightarrow> int list" where
  "fired w \<equiv> invalidations (effects w)"

section \<open>A sample of the collaborators\<close>

text \<open>
  The collaborators are parameters of everything above. The examples below run the
  handlers against this sample: a clock, a repository whose commit empties the staged
  files, a remote that may refuse a push, a checkout that may fail, a language model
  with a fixed outcome, and a user with a fixed answer to every message box.
  \<open>isGitRepository\<close> takes \<open>latency\<close> ms; the other calls take no time.
\<close>

record sample =
  clock :: int
  latency :: int
  repository :: GitStatus
  branches :: "Branch list"
  history :: "jsstring list"
  pushFails :: bool
  checkoutFails :: bool
  model :: "jserror + jsstring"
  answer :: "jsstring option"

definition failure :: "string \<Rightarrow> jserror" where
  "failure text = JsError False (js ''Error'') (js text)"

fun sampleGit :: "gitOp \<Rightarrow> sample \<Rightarrow> (jserror + unit) \<times> sample" where
  "sampleGit (GitCommit msg) e =
     (Inr (), e\<lparr>history := msg # history e, repository := (repository e)\<lparr>staged := []\<rparr>\<rparr>)"
| "sampleGit GitPush e =
     (if pushFails e then (Inl (failure ''rejected''), e) else (Inr (), e))"
| "sampleGit (GitCheckoutBranch b) e =
     (if checkoutFails e then (Inl (failure ''local changes would be overwritten''), e)
      else (Inr (), e\<lparr>repository := (repository e)\<lparr>branch := b\<rparr>\<rparr>))"
| "sampleGit op e = (Inr (), e)"

definition commitOf :: "jsstring \<Rightarrow> CommitInfo" where
  "commitOf msg = \<lparr>hash = [], author = [], date = [], message = msg, refs = []\<rparr>"

definition sampleCollaborators :: "sample collaborators" where
  "sampleCollaborators =
     \<lparr>dateNow = clock,
      isGitRepository = (\<lambda>e. (Inr True, e\<lparr>clock := clock e + latency e\<rparr>)),
      getGitStatus = (\<lambda>e. (Inr (repository e), e)),
      git = sampleGit,
      getBranches = (\<lambda>e. (Inr (branches e), e)),
      getCurrentBranch = (\<lambda>e. (Inr (branch (repository e)), e)),
      getCommitHistory = (\<lambda>n e. (Inr (map commitOf (take n (history e))), e)),
      generateDetailedCommitMessage = (\<lambda>st t e. (model e, e)),
      generateFallbackMessage = (\<lambda>st. js ''chore: update files''),
      showDialog = (\<lambda>d e. (answer e, e)),
      workspaceFolders = (\<lambda>e. Some 1),
      editor = (\<lambda>op e. (Inr (), e))\<rparr>"

definition sampleStatus :: GitStatus where
  "sampleStatus =
     \<lparr>branch = js ''main'', ahead = 0, behind = 0, staged = [js ''src/app.ts''],
      unstaged = [], untracked = []\<rparr>"

definition sampleOutside :: sample where
  "sampleOutside =
     \<lparr>clock = 1000, latency = 5, repository = sampleStatus,
      branches = [\<lparr>name = js ''main'', current = True, remote = False\<rparr>,
                  \<lparr>name = js ''feature'', current = False, remote = False\<rparr>],
      history = [], pushFails = False, checkoutFails = False,
      model = Inr (js ''feat: add app''), answer = None\<rparr>"

text \<open>The view is resolved, visible, at time 1000, and has loaded its content.\<close>

definition sampleWorld :: "sample world" where
  "sampleWorld = resolveWebviewView sampleCollaborators True (newWorld sampleOutside)"

text \<open>The page that view shows.\<close>

definition samplePage :: page where
  "samplePage =
     \<lparr>isGitRepo = True, status = Some sampleStatus,
      localBranches = [\<lparr>name = js ''main'', current = True, remote = False\<rparr>,
                       \<lparr>name = js ''feature'', current = False, remote = False\<rparr>],
      remoteBranches = [], currentBranch = js ''main'', commits = [],
      currentTab = js ''changes''\<rparr>"

section \<open>Properties\<close>

subsection \<open>How the building blocks change the world\<close>

lemma emit_fields [simp]:
  "provider (emit x w) = provider w" "surface (emit x w) = surface w" "env (emit x w) = env w"
  "timers (emit x w) = timers w" "nextHandle (emit x w) = nextHandle w"
  "effects (emit x w) = effects w @ [x]"
  by (simp_all add: emit_def)

lemma postMessage_fields [simp]:
  "provider (postMessage m w) = provider w" "surface (postMessage m w) = onMessage m (surface w)"
  "env (postMessage m w) = env w" "timers (postMessage m w) = timers w"
  "nextHandle (postMessage m w) = nextHandle w"
  "effects (postMessage m w) = effects w @ [PostMessage m]"
  by (simp_all add: postMessage_def)

lemma postIfView_provider [simp]: "provider (postIfView m w) = provider w"
  by (simp add: postIfView_def)

lemma setHtml_fields [simp]:
  "provider (setHtml pg w) = provider w" "surface (setHtml pg w) = loadDocument pg"
  "env (setHtml pg w) = env w" "timers (setHtml pg w) = timers w"
  "nextHandle (setHtml pg w) = nextHandle w"
  "effects (setHtml pg w) = effects w @ [SetHtml pg]"
  by (simp_all add: setHtml_def)

lemma call_provider [simp]: "provider (snd (call f l w)) = provider w"
  by (simp add: call_def split: prod.splits)

lemma ask_provider [simp]: "provider (snd (ask C d w)) = provider w"
  by (simp add: ask_def split: prod.splits)

lemma thenDo_limit:
  assumes "\<And>u. limit (snd (m u)) = limit u" and "\<And>u. limit (snd (k u)) = limit u"
  shows "limit (snd (thenDo m k w)) = limit w"
proof (cases "m w")
  case (Pair r w')
  have "limit w' = limit w"
    using assms(1) [of w] Pair by simp
  then show ?thesis
    using assms(2) [of w'] Pair by (cases r) (simp_all add: thenDo_def andThen_def)
qed

lemma tryCatch_limit:
  assumes "\<And>u. limit (snd (m u)) = limit u" and "\<And>err u. limit (snd (h err u)) = limit u"
  shows "limit (snd (tryCatch m h w)) = limit w"
proof (cases "m w")
  case (Pair r w')
  have "limit w' = limit w"
    using assms(1) [of w] Pair by simp
  then show ?thesis
    using assms(2) [of _ w'] Pair by (cases r) (simp_all add: tryCatch_def)
qed

lemma call_frame: "call f l w = (r, w') \<Longrightarrow> provider w' = provider w"
  by (auto simp: call_def split: prod.splits)

lemma ask_frame: "ask C d w = (r, w') \<Longrightarrow> provider w' = provider w"
  by (auto simp: ask_def split: prod.splits)

lemma statusCached_limit: "statusCached C w = (r, w') \<Longrightarrow> limit w' = limit w"
  by (auto simp: statusCached_def andThen_def split: option.splits prod.splits sum.splits if_splits
      dest!: call_frame)

lemma fetchAll_limit: "fetchAll C w = (f, w') \<Longrightarrow> limit w' = limit w"
  unfolding fetchAll_def Let_def
  by (auto split: prod.splits sum.splits if_splits dest!: call_frame statusCached_limit)

lemma loadContent_limit: "limit (snd (loadContent C w)) = limit w"
  by (auto simp: loadContent_def getHtmlContent_def split: prod.splits dest!: fetchAll_limit)

lemma refresh_limit: "limit (snd (refresh C w)) = limit w"
  using loadContent_limit [of C "w\<lparr>provider := (provider w)\<lparr>cachedStatus := None\<rparr>\<rparr>"]
  by (simp add: refresh_def)

lemma gitCall_limit: "limit (snd (gitCall C op w)) = limit w"
  by (simp add: gitCall_def)

lemma editorCall_limit: "limit (snd (editorCall C op w)) = limit w"
  by (simp add: editorCall_def)

lemma info_limit: "limit (snd (info t w)) = limit w"
  by (simp add: info_def act_def)

lemma warn_limit: "limit (snd (warn t w)) = limit w"
  by (simp add: warn_def act_def)

lemma post_limit: "limit (snd (post m w)) = limit w"
  by (simp add: post_def act_def)

lemmas limit_intros =
  thenDo_limit tryCatch_limit gitCall_limit editorCall_limit refresh_limit loadContent_limit
  info_limit warn_limit post_limit

lemma handleStageAll_limit: "limit (snd (handleStageAll C w)) = limit w"
  unfolding handleStageAll_def by (intro limit_intros)

lemma handleStageFile_limit: "limit (snd (handleStageFile C file w)) = limit w"
  unfolding handleStageFile_def by (intro limit_intros)

lemma handleUnstageFile_limit: "limit (snd (handleUnstageFile C file w)) = limit w"
  unfolding handleUnstageFile_def by (intro limit_intros)

lemma handleCommit_limit: "limit (snd (handleCommit C msg w)) = limit w"
  unfolding handleCommit_def by (cases "blank msg") (simp_all, (intro limit_intros)+)

lemma handleCommitAndPush_limit: "limit (snd (handleCommitAndPush C msg w)) = limit w"
  unfolding handleCommitAndPush_def by (cases "blank msg") (simp_all, (intro limit_intros)+)

lemma handlePush_limit: "limit (snd (handlePush C w)) = limit w"
  unfolding handlePush_def by (intro limit_intros)

lemma handlePull_limit: "limit (snd (handlePull C w)) = limit w"
  unfolding handlePull_def by (intro limit_intros)

lemma handleFetch_limit: "limit (snd (handleFetch C w)) = limit w"
  unfolding handleFetch_def by (intro limit_intros)

lemma handleDiscard_limit: "limit (snd (handleDiscard C file w)) = limit w"
proof (cases "ask C (Dialog Warning (quoted (js ''Discard changes in '') file (js ''?'')) True [js ''Discard'']) w")
  case (Pair confirm w')
  have "limit (snd (thenDo (gitCall C (GitDiscardChanges [file]))
               (thenDo (info (js ''Changes discarded'')) (refresh C)) w')) = limit w'"
    by (intro limit_intros)
  then show ?thesis
    using Pair ask_frame [OF Pair] by (simp add: handleDiscard_def)
qed

lemma handleDeleteBranch_limit: "limit (snd (handleDeleteBranch C b w)) = limit w"
proof (cases "ask C (Dialog Warning (quoted (js ''Delete branch '') b (js ''?'')) True [js ''Delete'']) w")
  case (Pair confirm w')
  have "limit (snd (thenDo (gitCall C (GitDeleteBranch b))
               (thenDo (info (quoted (js ''Branch '') b (js '' deleted''))) (refresh C)) w')) = limit w'"
    by (intro limit_intros)
  then show ?thesis
    using Pair ask_frame [OF Pair] by (simp add: handleDeleteBranch_def)
qed

lemma handleOpenDiff_limit: "limit (snd (handleOpenDiff C file w)) = limit w"
proof -
  have "\<And>e u. limit (snd (act (emit e) u)) = limit u"
    by (simp add: act_def)
  then show ?thesis
    unfolding handleOpenDiff_def
    by (auto split: option.splits intro!: limit_intros)
qed

lemma handleCreateBranch_limit: "limit (snd (handleCreateBranch C b w)) = limit w"
  unfolding handleCreateBranch_def by (cases "blank b") (simp_all, (intro limit_intros)+)

lemma handleSwitchBranch_limit: "limit (snd (handleSwitchBranch C b w)) = limit w"
  unfolding handleSwitchBranch_def by (intro limit_intros)

lemma handleOpenCommitDiff_limit: "limit (snd (handleOpenCommitDiff C h w)) = limit w"
proof -
  have "\<And>e u. limit (snd (act (emit e) u)) = limit u"
    by (simp add: act_def)
  then show ?thesis
    unfolding handleOpenCommitDiff_def by (intro limit_intros)
qed

lemma generationFinally_limit: "limit (generationFinally w) = limit w"
  by (simp add: generationFinally_def split: option.splits)

lemma complete_frame: "complete f w = (r, w') \<Longrightarrow> provider w' = provider w"
  by (auto simp: complete_def split: prod.splits)

lemma issue_provider [simp]: "provider (issue l w) = provider w"
  by (simp add: issue_def)

lemma generationResume_limit: "generationResume C g w = (r, w') \<Longrightarrow> limit w' = limit w"
  by (cases g)
    (auto simp: generationFinally_limit split: prod.splits sum.splits option.splits if_splits
      dest!: complete_frame ask_frame)

lemma generationRun_limit: "limit (snd (generationRun C g w)) = limit w"
proof (induction C g w rule: generationRun.induct)
  case (1 C g w)
  show ?case
  proof (cases "generationResume C g w")
    case (Pair r w')
    note lim = generationResume_limit [OF Pair]
    show ?thesis
    proof (cases r)
      case (Inl err)
      then show ?thesis using Pair lim by (subst generationRun.simps) simp
    next
      case (Inr o')
      show ?thesis
      proof (cases o')
        case None
        then show ?thesis using Pair Inr lim by (subst generationRun.simps) simp
      next
        case (Some g')
        have "limit (snd (generationRun C g' w')) = limit w'"
          using "1.IH" [OF Pair [symmetric] Inr Some] .
        then show ?thesis using Pair Inr Some lim by (subst generationRun.simps) simp
      qed
    qed
  qed
qed

lemma handleGenerateCommitMessage_limit: "limit (snd (handleGenerateCommitMessage C w)) = limit w"
  by (simp add: handleGenerateCommitMessage_def generationStart_def newTokenSource_def Let_def
      generationRun_limit)

lemma handleStopGeneration_limit: "limit (snd (handleStopGeneration C w)) = limit w"
  by (simp add: handleStopGeneration_def split: option.splits)

lemma handleLoadMore_limit: "limit (snd (handleLoadMore C w)) = 50"
  using loadContent_limit [of C "w\<lparr>provider := (provider w)\<lparr>commitsLimit := 50\<rparr>\<rparr>"]
  by (simp add: handleLoadMore_def)

lemma handle_limit: "limit (snd (handle C data w)) = (if data = LoadMore then 50 else limit w)"
proof (cases data)
  case Refresh
  have "limit (snd (thenDo (refresh C) (post (ClearLoading (js ''refreshBtn''))) w)) = limit w"
    by (intro limit_intros)
  then show ?thesis using Refresh by simp
qed (simp_all add: act_def resolve_def handleStageAll_limit handleStageFile_limit
      handleUnstageFile_limit handleCommit_limit handleCommitAndPush_limit handlePush_limit
      handlePull_limit handleFetch_limit handleDiscard_limit handleOpenDiff_limit
      handleCreateBranch_limit handleSwitchBranch_limit handleDeleteBranch_limit
      handleLoadMore_limit handleOpenCommitDiff_limit handleGenerateCommitMessage_limit
      handleStopGeneration_limit)

lemma onDidReceiveMessage_limit:
  "limit (onDidReceiveMessage C data w) = (if data = LoadMore then 50 else limit w)"
  using handle_limit [of C data w]
  by (cases "handle C data w") (auto simp: onDidReceiveMessage_def split: sum.splits)

lemma clearTimeout_provider [simp]: "provider (clearTimeout h w) = provider w"
  by (simp add: clearTimeout_def)

lemma step_limit: "limit (step C ev w) = limit w \<or> limit (step C ev w) = 50"
proof (cases ev)
  case (ResolveWebviewView visible)
  then show ?thesis
    by (simp add: resolveWebviewView_def Let_def loadContent_limit)
next
  case (ReceiveMessage data)
  then show ?thesis by (simp add: onDidReceiveMessage_limit)
next
  case (ChangeVisibility visible)
  then show ?thesis
    by (simp add: onDidChangeVisibility_def Let_def loadContent_limit)
next
  case StartFileWatcher
  then show ?thesis by (simp add: startFileWatcher_def Let_def split: option.splits)
next
  case FileChanged
  then show ?thesis by (simp add: debouncedRefresh_def Let_def split: option.splits)
next
  case (TimeoutElapsed h)
  have "\<And>u. limit (refreshTimeoutCallback C u) = limit u"
    by (simp add: refreshTimeoutCallback_def Let_def refresh_limit)
  then show ?thesis using TimeoutElapsed by (simp add: fire_def split: option.splits)
next
  case Dispose
  then show ?thesis by (simp add: dispose_def Let_def split: option.splits)
next
  case (Outside f)
  then show ?thesis by simp
qed


lemma run_snoc: "run C (evs @ [ev]) w = step C ev (run C evs w)"
  by (simp add: run_def)

lemma run_limit: "limit (run C evs (newWorld e)) = 20 \<or> limit (run C evs (newWorld e)) = 50"
proof (induction evs rule: rev_induct)
  case Nil
  then show ?case by (simp add: run_def newWorld_def newProvider_def)
next
  case (snoc ev evs)
  then show ?case
    using step_limit [of C ev "run C evs (newWorld e)"] by (auto simp: run_snoc)
qed

lemma run_limit_mono:
  "limit (run C evs (newWorld e)) \<le> limit (run C (evs @ later) (newWorld e))"
proof (induction later rule: rev_induct)
  case Nil
  then show ?case by simp
next
  case (snoc ev later)
  have "limit (run C (evs @ later) (newWorld e)) \<le> limit (step C ev (run C (evs @ later) (newWorld e)))"
    using step_limit [of C ev "run C (evs @ later) (newWorld e)"] run_limit [of C "evs @ later" e]
    by auto
  then show ?case
    using snoc by (simp add: run_snoc [of C "evs @ later" ev, simplified])
qed

lemma calls_simps [simp]:
  "calls [] = []" "calls (es @ es') = calls es @ calls es'"
  "calls (Call c # es) = c # calls es"
  "calls (ShowInformationMessage t # es) = calls es"
  "calls (ShowWarningMessage t # es) = calls es"
  "calls (ShowErrorMessage t b # es) = calls es"
  "calls (Asked d r # es) = calls es"
  "calls (PostMessage m # es) = calls es"
  "calls (SetHtml pg # es) = calls es"
  "calls (NewTokenSource n # es) = calls es"
  "calls (CancelToken n # es) = calls es"
  "calls (DisposeToken n # es) = calls es"
  "calls (SetTimeout n due # es) = calls es"
  "calls (ClearTimeout n # es) = calls es"
  "calls (TimeoutFired n due # es) = calls es"
  "calls (WatcherCreated # es) = calls es"
  "calls (WatcherDisposed # es) = calls es"
  by (simp_all add: calls_def)

lemma errorsShown_simps [simp]:
  "errorsShown [] = []" "errorsShown (es @ es') = errorsShown es @ errorsShown es'"
  "errorsShown (Call c # es) = errorsShown es"
  "errorsShown (ShowInformationMessage t # es) = errorsShown es"
  "errorsShown (ShowWarningMessage t # es) = errorsShown es"
  "errorsShown (ShowErrorMessage t b # es) = (t, b) # errorsShown es"
  "errorsShown (Asked d r # es) = errorsShown es"
  "errorsShown (PostMessage m # es) = errorsShown es"
  "errorsShown (SetHtml pg # es) = errorsShown es"
  "errorsShown (NewTokenSource n # es) = errorsShown es"
  "errorsShown (CancelToken n # es) = errorsShown es"
  "errorsShown (DisposeToken n # es) = errorsShown es"
  "errorsShown (SetTimeout n due # es) = errorsShown es"
  "errorsShown (ClearTimeout n # es) = errorsShown es"
  "errorsShown (TimeoutFired n due # es) = errorsShown es"
  "errorsShown (WatcherCreated # es) = errorsShown es"
  "errorsShown (WatcherDisposed # es) = errorsShown es"
  by (simp_all add: errorsShown_def)

lemma blank_iff: "blank msg \<longleftrightarrow> (\<forall>c \<in> set msg. isWhiteSpace c)"
proof
  assume "blank msg"
  then have t: "trim msg = []"
    by (auto simp: blank_def trim_def)
  have "dropWhile isWhiteSpace msg = []"
  proof (rule ccontr)
    assume ne: "dropWhile isWhiteSpace msg \<noteq> []"
    then have "\<not> isWhiteSpace (hd (dropWhile isWhiteSpace msg))"
      by (rule hd_dropWhile)
    moreover have "\<forall>c \<in> set (rev (dropWhile isWhiteSpace msg)). isWhiteSpace c"
      using t by (simp add: trim_def dropWhile_eq_Nil_conv)
    ultimately show False
      using ne by (metis hd_in_set set_rev)
  qed
  then show "\<forall>c \<in> set msg. isWhiteSpace c"
    by (simp add: dropWhile_eq_Nil_conv)
next
  assume "\<forall>c \<in> set msg. isWhiteSpace c"
  then have d: "dropWhile isWhiteSpace msg = []"
    by (simp add: dropWhile_eq_Nil_conv)
  have "trim msg = []"
    unfolding trim_def d by simp
  then show "blank msg"
    by (simp add: blank_def)
qed

lemma js_not_Nil [simp]: "s \<noteq> [] \<Longrightarrow> js s \<noteq> []"
  by (simp add: js_def)

lemma posted_simps [simp]:
  "posted [] = []" "posted (es @ es') = posted es @ posted es'"
  "posted (Call c # es) = posted es"
  "posted (ShowInformationMessage t # es) = posted es"
  "posted (ShowWarningMessage t # es) = posted es"
  "posted (ShowErrorMessage t b # es) = posted es"
  "posted (Asked d r # es) = posted es"
  "posted (PostMessage m # es) = m # posted es"
  "posted (SetHtml pg # es) = posted es"
  "posted (NewTokenSource n # es) = posted es"
  "posted (CancelToken n # es) = posted es"
  "posted (DisposeToken n # es) = posted es"
  "posted (SetTimeout n due # es) = posted es"
  "posted (ClearTimeout n # es) = posted es"
  "posted (TimeoutFired n due # es) = posted es"
  "posted (WatcherCreated # es) = posted es"
  "posted (WatcherDisposed # es) = posted es"
  by (simp_all add: posted_def)

subsection \<open>The timer of the file watcher\<close>

lemma invalidations_simps [simp]:
  "invalidations [] = []" "invalidations (es @ es') = invalidations es @ invalidations es'"
  "invalidations (Call c # es) = invalidations es"
  "invalidations (ShowInformationMessage t # es) = invalidations es"
  "invalidations (ShowWarningMessage t # es) = invalidations es"
  "invalidations (ShowErrorMessage t b # es) = invalidations es"
  "invalidations (Asked d r # es) = invalidations es"
  "invalidations (PostMessage m # es) = invalidations es"
  "invalidations (SetHtml pg # es) = invalidations es"
  "invalidations (NewTokenSource n # es) = invalidations es"
  "invalidations (CancelToken n # es) = invalidations es"
  "invalidations (DisposeToken n # es) = invalidations es"
  "invalidations (SetTimeout n due # es) = invalidations es"
  "invalidations (ClearTimeout n # es) = invalidations es"
  "invalidations (TimeoutFired n due # es) = due # invalidations es"
  "invalidations (WatcherCreated # es) = invalidations es"
  "invalidations (WatcherDisposed # es) = invalidations es"
  by (simp_all add: invalidations_def)

lemma call_fired: "call f l w = (r, w') \<Longrightarrow> fired w' = fired w"
  by (auto simp: call_def split: prod.splits)

lemma statusCached_fired: "statusCached C w = (r, w') \<Longrightarrow> fired w' = fired w"
  by (auto simp: statusCached_def andThen_def split: option.splits prod.splits sum.splits if_splits
      dest!: call_fired)

lemma fetchAll_fired: "fetchAll C w = (f, w') \<Longrightarrow> fired w' = fired w"
  unfolding fetchAll_def Let_def
  by (auto split: prod.splits sum.splits if_splits dest!: call_fired statusCached_fired)

lemma loadContent_fired: "fired (snd (loadContent C w)) = fired w"
  by (auto simp: loadContent_def getHtmlContent_def split: prod.splits dest!: fetchAll_fired)

lemma call_timers: "call f l w = (r, w') \<Longrightarrow> timers w' = timers w"
  by (auto simp: call_def split: prod.splits)

lemma statusCached_timers: "statusCached C w = (r, w') \<Longrightarrow> timers w' = timers w"
  by (auto simp: statusCached_def andThen_def split: option.splits prod.splits sum.splits if_splits
      dest!: call_timers)

lemma fetchAll_timers: "fetchAll C w = (f, w') \<Longrightarrow> timers w' = timers w"
  unfolding fetchAll_def Let_def
  by (auto split: prod.splits sum.splits if_splits dest!: call_timers statusCached_timers)

lemma loadContent_timers: "timers (snd (loadContent C w)) = timers w"
  by (auto simp: loadContent_def getHtmlContent_def split: prod.splits dest!: fetchAll_timers)

lemma refreshTimeoutCallback_fired: "fired (refreshTimeoutCallback C w) = fired w"
  by (simp add: refreshTimeoutCallback_def Let_def refresh_def loadContent_fired)

lemma refreshTimeoutCallback_timers: "timers (refreshTimeoutCallback C w) = timers w"
  by (simp add: refreshTimeoutCallback_def Let_def refresh_def loadContent_timers)

text \<open>One timer is pending, the one the field holds.\<close>

lemma fireDue_none: "timers w = [] \<Longrightarrow> fireDue C isDue w = w"
  by (simp add: fireDue_def)

lemma fireDue_not_due: "timers w = [(h, due)] \<Longrightarrow> \<not> isDue due \<Longrightarrow> fireDue C isDue w = w"
  by (simp add: fireDue_def)

lemma quiesce_one:
  assumes "timers w = [(h, due)]"
  shows "fired (quiesce C w) = fired w @ [due]" and "timers (quiesce C w) = []"
  using assms
  by (simp_all add: quiesce_def fireDue_def fire_def refreshTimeoutCallback_fired
      refreshTimeoutCallback_timers)

lemma debouncedRefresh_one:
  assumes "timers w = [] \<or> (\<exists>h due. timers w = [(h, due)] \<and> refreshTimeout (provider w) = Some h)"
  shows "timers (debouncedRefresh t w) = [(nextHandle w, t + 1000)]"
    and "refreshTimeout (provider (debouncedRefresh t w)) = Some (nextHandle w)"
    and "fired (debouncedRefresh t w) = fired w"
  using assms
  by (auto simp: debouncedRefresh_def clearTimeout_def Let_def split: option.splits)

lemma debouncedRefresh_same:
  "provider (debouncedRefresh t w) = (provider w)\<lparr>refreshTimeout := Some (nextHandle w)\<rparr>"
  "env (debouncedRefresh t w) = env w"
  "\<exists>es. effects (debouncedRefresh t w) = effects w @ es \<and> calls es = [] \<and> invalidations es = []"
  by (auto simp: debouncedRefresh_def clearTimeout_def Let_def split: option.splits)

lemma fileChanges_same:
  assumes "timers w = [(h, t0 + 1000)]" and "refreshTimeout (provider w) = Some h"
    and "withinQuietPeriod (t0 # ts)"
  shows "\<exists>h' es. timers (fileChanges C ts w) = [(h', last (t0 # ts) + 1000)]
              \<and> provider (fileChanges C ts w) = (provider w)\<lparr>refreshTimeout := Some h'\<rparr>
              \<and> env (fileChanges C ts w) = env w
              \<and> effects (fileChanges C ts w) = effects w @ es
              \<and> calls es = [] \<and> invalidations es = []"
  using assms
proof (induction ts arbitrary: w h t0)
  case Nil
  then show ?case by simp
next
  case (Cons t ts)
  let ?w2 = "debouncedRefresh t (fireDue C (\<lambda>due. due \<le> t) w)"
  have gap: "t0 \<le> t" "t - t0 < 1000" and rest: "withinQuietPeriod (t # ts)"
    using Cons.prems(3) by simp_all
  have w1: "fireDue C (\<lambda>due. due \<le> t) w = w"
    using Cons.prems(1) gap by (simp add: fireDue_not_due)
  have one: "timers w = [] \<or> (\<exists>h due. timers w = [(h, due)] \<and> refreshTimeout (provider w) = Some h)"
    using Cons.prems(1,2) by simp
  have t2: "timers ?w2 = [(nextHandle w, t + 1000)]"
    and r2: "refreshTimeout (provider ?w2) = Some (nextHandle w)"
    using debouncedRefresh_one [OF one, of t] by (simp_all add: w1)
  obtain es2 where e2: "effects ?w2 = effects w @ es2" "calls es2 = []" "invalidations es2 = []"
    using debouncedRefresh_same(3) [of t w] by (auto simp: w1)
  obtain h' es where
    "timers (fileChanges C ts ?w2) = [(h', last (t # ts) + 1000)]"
    "provider (fileChanges C ts ?w2) = (provider ?w2)\<lparr>refreshTimeout := Some h'\<rparr>"
    "env (fileChanges C ts ?w2) = env ?w2"
    "effects (fileChanges C ts ?w2) = effects ?w2 @ es"
    "calls es = []" "invalidations es = []"
    using Cons.IH [OF t2 r2 rest] by blast
  then have "timers (fileChanges C (t # ts) w) = [(h', last (t0 # t # ts) + 1000)]
      \<and> provider (fileChanges C (t # ts) w) = (provider w)\<lparr>refreshTimeout := Some h'\<rparr>
      \<and> env (fileChanges C (t # ts) w) = env w
      \<and> effects (fileChanges C (t # ts) w) = effects w @ (es2 @ es)
      \<and> calls (es2 @ es) = [] \<and> invalidations (es2 @ es) = []"
    using e2 by (simp add: w1 debouncedRefresh_same)
  then show ?case by blast
qed

text \<open>The callback of the timer on the cache.\<close>

lemma refreshTimeoutCallback_cache:
  "\<exists>xs. effects (refreshTimeoutCallback C w) = effects w @ xs
        \<and> invalidations xs = []
        \<and> (cachedStatus (provider (refreshTimeoutCallback C w)) = None \<or> GetGitStatus \<in> set (calls xs))
        \<and> (if view (provider w) \<and> isVisible (provider w)
            then take 1 (calls xs) = [IsGitRepository]
                 \<and> (\<forall>e1. isGitRepository C (env w) = (Inr True, e1)
                         \<longrightarrow> take 2 (calls xs) = [IsGitRepository, GetGitStatus])
            else cachedStatus (provider (refreshTimeoutCallback C w)) = None \<and> xs = [])"
proof (cases "view (provider w) \<and> isVisible (provider w)")
  case False
  then show ?thesis
    by (auto simp: refreshTimeoutCallback_def Let_def refresh_def loadContent_def)
next
  case True
  then show ?thesis
    by (simp add: refreshTimeoutCallback_def Let_def refresh_def loadContent_def
        getHtmlContent_def fetchAll_def statusCached_def call_def andThen_def emit_def
        setHtml_def split: prod.splits sum.splits)
qed

lemma withinQuietPeriod_prefix: "withinQuietPeriod (xs @ ys) \<Longrightarrow> withinQuietPeriod xs"
  by (induction xs rule: withinQuietPeriod.induct) auto

subsection \<open>The categories of the basic message\<close>

lemma categorize_precedence:
  "find (qualifies allUntracked file) precedence = Some (categorize allUntracked file)"
  by (simp add: precedence_def qualifies_def categorize_def Let_def)

lemma categorizeAll_eq:
  "categorizeAll files u = map (\<lambda>c. (c, map lastSegment (filesOf files u c))) entriesOrder"
proof (induction files rule: rev_induct)
  case Nil
  then show ?case
    by (simp add: categorizeAll_def entriesOrder_def emptyCategories_def filesOf_def)
next
  case (snoc f files)
  have "categorizeAll (files @ [f]) u = push (categorize u f) (lastSegment f) (categorizeAll files u)"
    by (simp add: categorizeAll_def)
  then show ?case
    unfolding snoc.IH
    by (cases "categorize u f")
      (simp_all add: push_def entriesOrder_def emptyCategories_def filesOf_def)
qed

lemma find_map_pair:
  "find (\<lambda>(t, l). l \<noteq> []) (map (\<lambda>c. (c, g c)) cs)
     = map_option (\<lambda>c. (c, g c)) (find (\<lambda>c. g c \<noteq> []) cs)"
  by (induction cs) auto

lemma filesOf_empty: "filesOf files u c \<noteq> [] \<longleftrightarrow> c \<in> categorize u ` set files"
  by (auto simp: filesOf_def filter_empty_conv)

subsection \<open>The sample\<close>

lemma sampleWorld_eq:
  "sampleWorld =
     \<lparr>provider = newProvider\<lparr>view := True, isVisible := True,
                   cachedStatus := Some sampleStatus, lastRefresh := 1000\<rparr>,
      surface = \<lparr>html = Some samplePage, loading = {}, commitMessage = js ''fix: app.ts''\<rparr>,
      env = sampleOutside\<lparr>clock := 1005\<rparr>, timers = [], nextHandle = 0,
      effects = [SetHtml None, Call IsGitRepository, Call GetGitStatus, Call GetBranches,
                 Call GetCurrentBranch, Call (GetCommitHistory 20), SetHtml (Some samplePage)]\<rparr>"
  by code_simp

lemma sample_view: "view (provider sampleWorld)"
  by (simp add: sampleWorld_eq)

lemmas eval_defs =
  onDidReceiveMessage_def handleLoadMore_def loadContent_def getHtmlContent_def fetchAll_def
  statusCached_def call_def andThen_def thenDo_def act_def setHtml_def emit_def postMessage_def
  postIfView_def post_def info_def warn_def gitCall_def refresh_def isPushError_def ask_def
  sampleCollaborators_def sampleOutside_def newProvider_def Let_def since_def

lemma js_eq_iff: "js a = js b \<longleftrightarrow> a = b"
proof -
  have "inj (of_char :: char \<Rightarrow> nat)"
    by (rule inj_on_inverseI [where g = char_of]) simp
  then show ?thesis
    by (simp add: js_def inj_map_eq_map)
qed

lemmas generation_defs =
  generationStart_def newTokenSource_def generationFinally_def issue_def complete_def
  onSurface_def showLoading_def clearLoading_def onMessage_def hasElement_def
  refreshWithLoading_def samplePage_def sampleStatus_def js_eq_iff

section \<open>The claims\<close>

subsection \<open>Switching the tab\<close>

text \<open>
  Claim C10. Handling \<open>switchTab(tab)\<close> changes the field \<open>activeTab\<close> and nothing else:
  the cached status, \<open>commitsLimit\<close>, \<open>lastRefresh\<close> and the visibility stay as they
  were, no collaborator is called, and nothing is posted or rendered (the effects, the
  webview and the outside are the same).
\<close>

theorem switchTab_only_activeTab:
  "let w' = onDidReceiveMessage C (SwitchTab tab) w in
     w' = w\<lparr>provider := (provider w)\<lparr>activeTab := tab\<rparr>\<rparr>
     \<and> cachedStatus (provider w') = cachedStatus (provider w)
     \<and> commitsLimit (provider w') = commitsLimit (provider w)
     \<and> lastRefresh (provider w') = lastRefresh (provider w)
     \<and> isVisible (provider w') = isVisible (provider w)
     \<and> env w' = env w \<and> surface w' = surface w \<and> effects w' = effects w"
  by (simp add: onDidReceiveMessage_def act_def)

theorem switchTab_only_activeTab_witness:
  "activeTab (provider (onDidReceiveMessage sampleCollaborators (SwitchTab (js ''commits'')) sampleWorld))
     = js ''commits''
   \<and> effects (onDidReceiveMessage sampleCollaborators (SwitchTab (js ''commits'')) sampleWorld)
     = effects sampleWorld"
  using switchTab_only_activeTab [of sampleCollaborators "js ''commits''" sampleWorld]
  by (simp add: Let_def)

subsection \<open>A blank commit message\<close>

text \<open>
  Claim C8. For a message that is empty or made of white space only, handling
  \<open>commit(message)\<close> calls no collaborator (so \<open>commit\<close> is not called): it shows the
  warning and posts \<open>clearLoading\<close> for \<open>commitBtn\<close>, after which the button, where the
  page has one, is not loading; the provider's fields, the outside and the timers are
  unchanged.
\<close>

theorem commit_blank_message:
  assumes "\<forall>c \<in> set msg. isWhiteSpace c" and "view (provider w)"
  shows "let w' = onDidReceiveMessage C (Commit msg) w in
     calls (effects w') = calls (effects w)
     \<and> effects w' = effects w @ [ShowWarningMessage (js ''Commit message cannot be empty''),
                                  PostMessage (ClearLoading (js ''commitBtn''))]
     \<and> surface w' = onMessage (ClearLoading (js ''commitBtn'')) (surface w)
     \<and> (hasElement (html (surface w)) (js ''commitBtn'') \<longrightarrow> js ''commitBtn'' \<notin> loading (surface w'))
     \<and> provider w' = provider w \<and> env w' = env w
     \<and> timers w' = timers w \<and> nextHandle w' = nextHandle w"
proof -
  have "blank msg"
    using assms(1) by (simp add: blank_iff)
  then have "onDidReceiveMessage C (Commit msg) w =
      postMessage (ClearLoading (js ''commitBtn''))
        (emit (ShowWarningMessage (js ''Commit message cannot be empty'')) w)"
    using assms(2)
    by (simp add: onDidReceiveMessage_def handleCommit_def thenDo_def andThen_def warn_def
        post_def act_def postIfView_def)
  then show ?thesis
    by (auto simp: Let_def onMessage_def clearLoading_def hasElement_def)
qed

theorem commit_blank_message_witness:
  "calls (effects (onDidReceiveMessage sampleCollaborators (Commit (js ''   '')) sampleWorld))
     = calls (effects sampleWorld)
   \<and> js ''commitBtn'' \<notin> loading (surface (onDidReceiveMessage sampleCollaborators (Commit (js ''   '')) sampleWorld))"
proof -
  have ws: "\<forall>c \<in> set (js ''   ''). isWhiteSpace c"
    by (simp add: js_def isWhiteSpace_def)
  have el: "hasElement (html (surface sampleWorld)) (js ''commitBtn'')"
    by (simp add: sampleWorld_eq hasElement_def samplePage_def sampleStatus_def)
  show ?thesis
    using commit_blank_message [OF ws sample_view, of sampleCollaborators] el
    unfolding Let_def by blast
qed

subsection \<open>Commit and push, the push failing\<close>

text \<open>
  Claim C3. When \<open>commit\<close> succeeds and \<open>push\<close> then throws, handling
  \<open>commitAndPush(message)\<close> leaves the outside as the commit and the failed push left it:
  the only calls are the commit and the push, in this order, so nothing undoes the commit
  and the next \<open>getGitStatus\<close> answers from that state. Exactly one error message is
  shown, and it is modal.
\<close>

theorem commitAndPush_push_fails:
  assumes "view (provider w)" and "\<not> blank msg"
    and "git C (GitCommit msg) (env w) = (Inr (), e1)"
    and "git C GitPush e1 = (Inl error, e2)"
  shows "let w' = onDidReceiveMessage C (CommitAndPush msg) w in
     env w' = e2
     \<and> calls (effects w') = calls (effects w) @ [Git (GitCommit msg), Git GitPush]
     \<and> errorsShown (effects w')
         = errorsShown (effects w) @ [(js ''GitShift: '' @ errorMessage error, True)]
     \<and> getGitStatus C (env w') = getGitStatus C e2
     \<and> provider w' = provider w
     \<and> surface w' = onMessage ClearAllLoading (surface w)"
  using assms
  by (simp add: onDidReceiveMessage_def handleCommitAndPush_def thenDo_def andThen_def info_def
      act_def postIfView_def gitCall_def call_def isPushError_def Let_def)

theorem commitAndPush_push_fails_witness:
  "(let w = sampleWorld\<lparr>env := (env sampleWorld)\<lparr>pushFails := True\<rparr>\<rparr>;
        w' = onDidReceiveMessage sampleCollaborators (CommitAndPush (js ''fix: app'')) w
    in history (env w') = [js ''fix: app'']
       \<and> fst (getGitStatus sampleCollaborators (env w')) = Inr (sampleStatus\<lparr>staged := []\<rparr>)
       \<and> calls (effects w') = calls (effects w) @ [Git (GitCommit (js ''fix: app'')), Git GitPush]
       \<and> errorsShown (effects w') = errorsShown (effects w) @ [(js ''GitShift: rejected'', True)])"
proof -
  define w where "w = sampleWorld\<lparr>env := (env sampleWorld)\<lparr>pushFails := True\<rparr>\<rparr>"
  define e1 where "e1 = snd (sampleGit (GitCommit (js ''fix: app'')) (env w))"
  have v: "view (provider w)"
    using sample_view by (simp add: w_def)
  have nb: "\<not> blank (js ''fix: app'')"
    by (simp add: blank_iff js_def isWhiteSpace_def)
  have c: "git sampleCollaborators (GitCommit (js ''fix: app'')) (env w) = (Inr (), e1)"
    by (simp add: sampleCollaborators_def e1_def)
  have p: "git sampleCollaborators GitPush e1 = (Inl (failure ''rejected''), e1)"
    by (simp add: sampleCollaborators_def e1_def w_def)
  have h: "history e1 = [js ''fix: app'']
           \<and> fst (getGitStatus sampleCollaborators e1) = Inr (sampleStatus\<lparr>staged := []\<rparr>)"
    by (simp add: e1_def w_def sampleWorld_eq sampleCollaborators_def sampleOutside_def)
  have m: "js ''GitShift: '' @ errorMessage (failure ''rejected'') = js ''GitShift: rejected''"
    by (simp add: failure_def js_def)
  show ?thesis
    using commitAndPush_push_fails [OF v nb c p] h m
    unfolding Let_def w_def [symmetric] by simp
qed

subsection \<open>The limit of the commit history\<close>

text \<open>
  Claim C9. \<open>commitsLimit\<close> starts at 20; handling \<open>loadMore\<close> sets it to 50, and
  handling it again leaves it at 50; along every session, whatever happens, it never
  decreases.
\<close>

theorem commitsLimit_monotone:
  "commitsLimit (provider (newWorld e)) = 20
   \<and> commitsLimit (provider (onDidReceiveMessage C LoadMore w)) = 50
   \<and> commitsLimit (provider (onDidReceiveMessage C LoadMore (onDidReceiveMessage C LoadMore w))) = 50
   \<and> commitsLimit (provider (run C evs (newWorld e)))
       \<le> commitsLimit (provider (run C (evs @ later) (newWorld e)))"
  using run_limit_mono [of C evs e later]
  by (simp add: onDidReceiveMessage_limit newWorld_def newProvider_def)

theorem commitsLimit_monotone_witness:
  "commitsLimit (provider (newWorld sampleOutside)) = 20
   \<and> commitsLimit (provider (onDidReceiveMessage sampleCollaborators LoadMore sampleWorld)) = 50
   \<and> commitsLimit (provider (run sampleCollaborators
        [ResolveWebviewView True, ReceiveMessage LoadMore] (newWorld sampleOutside)))
     \<le> commitsLimit (provider (run sampleCollaborators
        ([ResolveWebviewView True, ReceiveMessage LoadMore] @ [ReceiveMessage Refresh])
        (newWorld sampleOutside)))"
  using commitsLimit_monotone [of sampleOutside sampleCollaborators sampleWorld
      "[ResolveWebviewView True, ReceiveMessage LoadMore]" "[ReceiveMessage Refresh]"]
  by blast

subsection \<open>A burst of file changes\<close>

text \<open>
  Claim C5. For file changes at times in order, each less than 1000 ms after the one
  before, starting with no timer pending: after every change exactly one timer is
  pending, due 1000 ms after that change (the change cleared the timer before it and set
  a new one), and so far the cache is untouched, nothing was called and no callback ran.
  The callback runs exactly once, 1000 ms after the last change, and no timer is left.
  That callback invalidates the cache: afterwards the cache is empty or the status was
  fetched anew. With the view not visible the cache is empty and nothing was called;
  with the view visible a refresh was started, which in a Git repository fetches the
  status although a status was cached.
\<close>

theorem burst_invalidates_once:
  assumes "ts \<noteq> []" and "withinQuietPeriod ts" and "timers w = []"
  shows "let w' = quiesce C (fileChanges C ts w) in
     invalidations (effects w') = invalidations (effects w) @ [last ts + 1000]
     \<and> (\<forall>k < length ts.
           let v = fileChanges C (take (Suc k) ts) w in
             map snd (timers v) = [ts ! k + 1000]
             \<and> cachedStatus (provider v) = cachedStatus (provider w)
             \<and> calls (effects v) = calls (effects w)
             \<and> invalidations (effects v) = invalidations (effects w))
     \<and> timers w' = []
     \<and> (cachedStatus (provider w') = None \<or> GetGitStatus \<in> set (calls (since w w')))
     \<and> (if view (provider w) \<and> isVisible (provider w)
         then take 1 (calls (since w w')) = [IsGitRepository]
              \<and> (\<forall>e1. isGitRepository C (env w) = (Inr True, e1)
                      \<longrightarrow> take 2 (calls (since w w')) = [IsGitRepository, GetGitStatus])
         else cachedStatus (provider w') = None \<and> calls (effects w') = calls (effects w))"
proof -
  have pending: "\<exists>h' es. timers (fileChanges C us w) = [(h', last us + 1000)]
                   \<and> provider (fileChanges C us w) = (provider w)\<lparr>refreshTimeout := Some h'\<rparr>
                   \<and> env (fileChanges C us w) = env w
                   \<and> effects (fileChanges C us w) = effects w @ es
                   \<and> calls es = [] \<and> invalidations es = []"
    if ne: "us \<noteq> []" and quiet: "withinQuietPeriod us" for us
  proof -
    obtain t us' where us: "us = t # us'"
      using ne by (cases us) auto
    let ?w1 = "debouncedRefresh t (fireDue C (\<lambda>due. due \<le> t) w)"
    have w0: "fireDue C (\<lambda>due. due \<le> t) w = w"
      using assms(3) by (rule fireDue_none)
    have one: "timers w = []
               \<or> (\<exists>h due. timers w = [(h, due)] \<and> refreshTimeout (provider w) = Some h)"
      using assms(3) by simp
    have t1: "timers ?w1 = [(nextHandle w, t + 1000)]"
      and r1: "refreshTimeout (provider ?w1) = Some (nextHandle w)"
      using debouncedRefresh_one [OF one, of t] by (simp_all add: w0)
    obtain es1 where e1: "effects ?w1 = effects w @ es1" "calls es1 = []" "invalidations es1 = []"
      using debouncedRefresh_same(3) [of t w] by (auto simp: w0)
    obtain h' es where
      "timers (fileChanges C us' ?w1) = [(h', last (t # us') + 1000)]"
      "provider (fileChanges C us' ?w1) = (provider ?w1)\<lparr>refreshTimeout := Some h'\<rparr>"
      "env (fileChanges C us' ?w1) = env ?w1"
      "effects (fileChanges C us' ?w1) = effects ?w1 @ es"
      "calls es = []" "invalidations es = []"
      using fileChanges_same [OF t1 r1, of us' C] quiet us by blast
    then have "timers (fileChanges C us w) = [(h', last us + 1000)]
        \<and> provider (fileChanges C us w) = (provider w)\<lparr>refreshTimeout := Some h'\<rparr>
        \<and> env (fileChanges C us w) = env w
        \<and> effects (fileChanges C us w) = effects w @ (es1 @ es)
        \<and> calls (es1 @ es) = [] \<and> invalidations (es1 @ es) = []"
      using e1 by (simp add: us w0 debouncedRefresh_same)
    then show ?thesis by blast
  qed
  have each: "let v = fileChanges C (take (Suc k) ts) w in
             map snd (timers v) = [ts ! k + 1000]
             \<and> cachedStatus (provider v) = cachedStatus (provider w)
             \<and> calls (effects v) = calls (effects w)
             \<and> invalidations (effects v) = invalidations (effects w)"
    if k: "k < length ts" for k
  proof -
    have "withinQuietPeriod (take (Suc k) ts @ drop (Suc k) ts)"
      using assms(2) by simp
    then have q: "withinQuietPeriod (take (Suc k) ts)"
      by (rule withinQuietPeriod_prefix)
    have l: "last (take (Suc k) ts) = ts ! k"
      using k by (simp add: take_Suc_conv_app_nth)
    have "take (Suc k) ts \<noteq> []"
      using assms(1) by simp
    then show ?thesis
      using pending [OF _ q] l by (auto simp: Let_def)
  qed
  let ?u = "fileChanges C ts w"
  obtain h' es where p: "timers ?u = [(h', last ts + 1000)]"
    and pu: "provider ?u = (provider w)\<lparr>refreshTimeout := Some h'\<rparr>"
    and eu: "env ?u = env w"
    and fu: "effects ?u = effects w @ es" and ce: "calls es = []" and ie: "invalidations es = []"
    using pending [OF assms(1,2)] by blast
  let ?u1 = "emit (TimeoutFired h' (last ts + 1000)) (?u\<lparr>timers := []\<rparr>)"
  have q: "quiesce C ?u = refreshTimeoutCallback C ?u1"
    using p by (simp add: quiesce_def fireDue_def fire_def)
  obtain xs where x: "effects (refreshTimeoutCallback C ?u1) = effects ?u1 @ xs"
    and ix: "invalidations xs = []"
    and cx: "cachedStatus (provider (refreshTimeoutCallback C ?u1)) = None
             \<or> GetGitStatus \<in> set (calls xs)"
    and vx: "if view (provider ?u1) \<and> isVisible (provider ?u1)
            then take 1 (calls xs) = [IsGitRepository]
                 \<and> (\<forall>e1. isGitRepository C (env ?u1) = (Inr True, e1)
                         \<longrightarrow> take 2 (calls xs) = [IsGitRepository, GetGitStatus])
            else cachedStatus (provider (refreshTimeoutCallback C ?u1)) = None \<and> xs = []"
    using refreshTimeoutCallback_cache [of C ?u1] by blast
  have s: "calls (since w (quiesce C ?u)) = calls xs"
    by (simp add: q x fu since_def ce)
  have e: "effects (quiesce C ?u) = effects w @ es @ [TimeoutFired h' (last ts + 1000)] @ xs"
    by (simp add: q x fu)
  have t: "timers (quiesce C ?u) = []"
    using quiesce_one(2) [OF p] .
  have "invalidations (effects (quiesce C ?u)) = invalidations (effects w) @ [last ts + 1000]"
    by (simp add: e ie ix)
  moreover have "cachedStatus (provider (quiesce C ?u)) = None
                 \<or> GetGitStatus \<in> set (calls (since w (quiesce C ?u)))"
    using cx s by (simp add: q)
  moreover have "if view (provider w) \<and> isVisible (provider w)
         then take 1 (calls (since w (quiesce C ?u))) = [IsGitRepository]
              \<and> (\<forall>e1. isGitRepository C (env w) = (Inr True, e1)
                      \<longrightarrow> take 2 (calls (since w (quiesce C ?u))) = [IsGitRepository, GetGitStatus])
         else cachedStatus (provider (quiesce C ?u)) = None
              \<and> calls (effects (quiesce C ?u)) = calls (effects w)"
    using vx s by (auto simp: q pu eu e ce x fu)
  ultimately show ?thesis
    using each t unfolding Let_def by blast
qed

theorem burst_invalidates_once_witness:
  "(let w' = quiesce sampleCollaborators (fileChanges sampleCollaborators [0, 400, 1300] sampleWorld)
    in invalidations (effects w') = [2300] \<and> timers w' = []
       \<and> take 2 (calls (since sampleWorld w')) = [IsGitRepository, GetGitStatus])"
proof -
  have ne: "[0, 400, 1300] \<noteq> ([] :: int list)"
    by simp
  have quiet: "withinQuietPeriod [0, 400, 1300]"
    by simp
  have none: "timers sampleWorld = []" and v: "view (provider sampleWorld)"
    and vis: "isVisible (provider sampleWorld)"
    and i: "invalidations (effects sampleWorld) = []"
    and g: "isGitRepository sampleCollaborators (env sampleWorld)
              = (Inr True, (env sampleWorld)\<lparr>clock := 1010\<rparr>)"
    by (simp_all add: sampleWorld_eq newProvider_def sampleCollaborators_def sampleOutside_def)
  show ?thesis
    using burst_invalidates_once [OF ne quiet none, of sampleCollaborators] v vis i g
    unfolding Let_def by simp
qed

subsection \<open>The category of the basic message\<close>

text \<open>
  Claim C4, as stated: the message is prefixed with the category that comes first in the
  order test, docs, style, chore, feat, fix, refactor among those the staged files fall
  into. For the staged files \<open>README.md\<close>, \<open>src/app.ts\<close> and \<open>test/app.spec.ts\<close>, none
  of them untracked, that category is \<open>test\<close>; the message is \<open>fix: app.ts\<close>.
\<close>

theorem message_category_counterexample:
  "(let files = [js ''README.md'', js ''src/app.ts'', js ''test/app.spec.ts''] in
      map (categorize []) files = [Docs, Fix, Test]
      \<and> find (\<lambda>c. c \<in> categorize [] ` set files) precedence = Some Test
      \<and> generateCommitMessage files [] = js ''fix: app.ts''
      \<and> take 5 (generateCommitMessage files []) \<noteq> js ''test:'')"
  by (simp add: generateCommitMessage_def categorizeAll_def categorize_def js_def reTest_def
      reDocs_def reStyle_def reChore_def reFeat_def endsWith_def ciEq_def push_def
      emptyCategories_def lastSegment_def renderMessage_def precedence_def)

text \<open>
  Claim C4, amended. The message is a function of the staged and the untracked files.
  Each staged file falls into the first category, in the order test, docs, style, chore,
  feat, fix, refactor, for which it qualifies. The message is built from the first
  category, in the order feat, fix, docs, style, test, chore, refactor, into which some
  staged file falls: the name of that category, then its files.
\<close>

theorem message_category:
  assumes "files \<noteq> []"
  shows "(\<forall>file \<in> set files.
            find (qualifies allUntracked file) precedence = Some (categorize allUntracked file))
         \<and> (\<exists>c. find (\<lambda>c. c \<in> categorize allUntracked ` set files) entriesOrder = Some c
                \<and> generateCommitMessage files allUntracked
                    = renderMessage c (map lastSegment (filesOf files allUntracked c)))"
proof -
  obtain f where "f \<in> set files"
    using assms by (cases files) auto
  then have "categorize allUntracked f \<in> categorize allUntracked ` set files"
    by simp
  moreover have "categorize allUntracked f \<in> set entriesOrder"
    by (cases "categorize allUntracked f") (simp_all add: entriesOrder_def)
  ultimately obtain c
    where c: "find (\<lambda>c. c \<in> categorize allUntracked ` set files) entriesOrder = Some c"
    by (metis find_None_iff not_Some_eq)
  then have "generateCommitMessage files allUntracked
               = renderMessage c (map lastSegment (filesOf files allUntracked c))"
    using assms
    by (simp add: generateCommitMessage_def categorizeAll_eq find_map_pair filesOf_empty)
  then show ?thesis
    using c by (simp add: categorize_precedence)
qed

theorem message_category_witness:
  "find (\<lambda>c. c \<in> categorize [] ` set [js ''README.md'', js ''src/app.ts'', js ''test/app.spec.ts''])
     entriesOrder = Some Fix
   \<and> generateCommitMessage [js ''README.md'', js ''src/app.ts'', js ''test/app.spec.ts''] []
     = renderMessage Fix [js ''app.ts'']"
proof -
  have ne: "[js ''README.md'', js ''src/app.ts'', js ''test/app.spec.ts''] \<noteq> []"
    by simp
  have cats: "map (categorize []) [js ''README.md'', js ''src/app.ts'', js ''test/app.spec.ts'']
                = [Docs, Fix, Test]"
    by (simp add: categorize_def js_def reTest_def reDocs_def reStyle_def reChore_def
        reFeat_def endsWith_def ciEq_def)
  have seg: "lastSegment (js ''src/app.ts'') = js ''app.ts''"
    by (simp add: lastSegment_def js_def)
  show ?thesis
    using message_category [OF ne, of "[]"] cats seg
    by (auto simp: entriesOrder_def filesOf_def)
qed

subsection \<open>Becoming visible after an invalidation\<close>

text \<open>
  Claim C7, as stated: once the cache was invalidated by the timer while the view was not
  visible, the next change to visible refetches the status. The view last loaded at time
  1000; it is hidden, a file changes at 1200, the timer fires at 2200 and empties the
  cache; the view becomes visible at 2500, which is 1500 ms after the last load, and
  nothing is called: the cache stays empty and the page stays as it was.
\<close>

theorem visible_after_invalidation_counterexample:
  "(let w1 = run sampleCollaborators
               [ChangeVisibility False, StartFileWatcher, Outside (\<lambda>e. e\<lparr>clock := 1200\<rparr>),
                FileChanged, Outside (\<lambda>e. e\<lparr>clock := 2200\<rparr>), TimeoutElapsed 0] sampleWorld;
        w2 = run sampleCollaborators
               [Outside (\<lambda>e. e\<lparr>clock := 2500\<rparr>), ChangeVisibility True] w1
    in invalidations (since sampleWorld w1) = [2200]
       \<and> cachedStatus (provider w1) = None \<and> \<not> isVisible (provider w1)
       \<and> isVisible (provider w2) \<and> calls (since w1 w2) = []
       \<and> cachedStatus (provider w2) = None \<and> surface w2 = surface sampleWorld)"
  by (simp add: sampleWorld_eq eval_defs run_def onDidChangeVisibility_def startFileWatcher_def
      debouncedRefresh_def fire_def refreshTimeoutCallback_def)

text \<open>
  Claim C7, amended. Once the timer has fired while the view was not visible, the cache is
  empty; when the view then becomes visible more than 2000 ms after the last load, in a
  Git repository, the content is loaded and the status refetched (\<open>getGitStatus\<close> is
  called right after \<open>isGitRepository\<close>); when it becomes visible within 2000 ms of the
  last load nothing is called, and the cache stays empty.
\<close>

theorem visible_after_invalidation:
  assumes "view (provider w)" and "\<not> isVisible (provider w)"
    and "map_of (timers w) h = Some due"
    and "isGitRepository C e = (Inr True, e')"
  shows "let w1 = fire C h w;
             w2 = onDidChangeVisibility C True (w1\<lparr>env := e\<rparr>)
         in cachedStatus (provider w1) = None
            \<and> (if dateNow C e - lastRefresh (provider w) > 2000
                then take 2 (calls (since w1 w2)) = [IsGitRepository, GetGitStatus]
                else calls (since w1 w2) = [] \<and> cachedStatus (provider w2) = None
                     \<and> surface w2 = surface w)"
proof -
  let ?w1 = "fire C h w"
  have w1: "?w1 = (emit (TimeoutFired h due) (w\<lparr>timers := filter (\<lambda>(k, d). k \<noteq> h) (timers w)\<rparr>))
                     \<lparr>provider := (provider w)\<lparr>cachedStatus := None\<rparr>\<rparr>"
    using assms(2,3) by (simp add: fire_def refreshTimeoutCallback_def Let_def emit_def)
  show ?thesis
  proof (cases "dateNow C e - lastRefresh (provider w) > 2000")
    case True
    obtain r e'' where g: "getGitStatus C e' = (r, e'')"
      by (cases "getGitStatus C e'")
    show ?thesis
      using assms(1,4) True g
      by (simp add: Let_def w1 onDidChangeVisibility_def loadContent_def getHtmlContent_def
          fetchAll_def statusCached_def call_def andThen_def since_def emit_def setHtml_def
          split: prod.splits sum.splits)
  next
    case False
    then show ?thesis
      by (simp add: Let_def w1 onDidChangeVisibility_def since_def emit_def)
  qed
qed

theorem visible_after_invalidation_witness:
  "(let w = debouncedRefresh 1200
              (sampleWorld\<lparr>provider := (provider sampleWorld)\<lparr>isVisible := False\<rparr>\<rparr>);
        w1 = fire sampleCollaborators 0 w;
        w2 = onDidChangeVisibility sampleCollaborators True
               (w1\<lparr>env := (env sampleWorld)\<lparr>clock := 5000\<rparr>\<rparr>)
    in cachedStatus (provider w1) = None
       \<and> take 2 (calls (since w1 w2)) = [IsGitRepository, GetGitStatus])"
proof -
  define w where "w = debouncedRefresh 1200
              (sampleWorld\<lparr>provider := (provider sampleWorld)\<lparr>isVisible := False\<rparr>\<rparr>)"
  define e where "e = (env sampleWorld)\<lparr>clock := 5000\<rparr>"
  have v: "view (provider w)" and nv: "\<not> isVisible (provider w)"
    and t: "map_of (timers w) 0 = Some 2200" and l: "lastRefresh (provider w) = 1000"
    by (simp_all add: w_def sampleWorld_eq debouncedRefresh_def Let_def newProvider_def)
  have g: "isGitRepository sampleCollaborators e = (Inr True, e\<lparr>clock := 5005\<rparr>)"
    by (simp add: e_def sampleWorld_eq sampleCollaborators_def sampleOutside_def)
  have d: "dateNow sampleCollaborators e = 5000"
    by (simp add: e_def sampleCollaborators_def)
  show ?thesis
    using visible_after_invalidation [OF v nv t g] l d
    unfolding Let_def w_def [symmetric] e_def [symmetric] by simp
qed

subsection \<open>A second generation while one is in flight\<close>

text \<open>
  Claim C1, at a failing input. The generate button is clicked: the handler creates token
  source 0 and calls \<open>getGitStatus\<close>; the status arrives and the generation is called
  with token 0. While it runs, the refresh button is clicked: the page is rendered anew
  and its generate button is not loading. That button is clicked: the handler creates
  token source 1, stores it in the field and calls \<open>getGitStatus\<close>; it neither disposes
  nor cancels token source 0. The first generation then completes: its message is posted
  and fills the textarea, \<open>clearLoading\<close> ends the loading state of the button while the
  second request is in flight, and the \<open>finally\<close> block disposes the source in the field,
  which is source 1, and empties the field. Source 0 is never disposed. When the status
  of the second request arrives, reading the token of the empty field throws.
\<close>

theorem second_generation_leaks:
  "(let w1 = snd (generationStart (onSurface (showLoading (js ''generateMsgBtn'')) sampleWorld));
        w2 = snd (generationResume sampleCollaborators AwaitStatus w1);
        w3 = refreshWithLoading sampleCollaborators w2;
        w4 = snd (generationStart (onSurface (showLoading (js ''generateMsgBtn'')) w3));
        w5 = snd (generationResume sampleCollaborators (AwaitGeneration sampleStatus 0) w4)
    in since sampleWorld w1 = [NewTokenSource 0, Call GetGitStatus]
       \<and> fst (generationResume sampleCollaborators AwaitStatus w1)
           = Inr (Some (AwaitGeneration sampleStatus 0))
       \<and> loading (surface w2) = {js ''generateMsgBtn''}
       \<and> loading (surface w3) = {}
       \<and> since w3 w4 = [NewTokenSource 1, Call GetGitStatus]
       \<and> generationCancelToken (provider w4) = Some 1
       \<and> since w4 w5 = [PostMessage (CommitMessageGenerated (js ''feat: add app'')),
                          PostMessage (ClearLoading (js ''generateMsgBtn'')), DisposeToken 1]
       \<and> commitMessage (surface w5) = js ''feat: add app''
       \<and> loading (surface w5) = {}
       \<and> DisposeToken 0 \<notin> set (effects w5) \<and> CancelToken 0 \<notin> set (effects w5)
       \<and> generationCancelToken (provider w5) = None
       \<and> fst (generationResume sampleCollaborators AwaitStatus w5)
           = Inr (Some (AwaitFallbackStatus (typeError ''token''))))"
proof -
  define w1 where
    "w1 = snd (generationStart (onSurface (showLoading (js ''generateMsgBtn'')) sampleWorld))"
  define w2 where "w2 = snd (generationResume sampleCollaborators AwaitStatus w1)"
  define w3 where "w3 = refreshWithLoading sampleCollaborators w2"
  define w4 where
    "w4 = snd (generationStart (onSurface (showLoading (js ''generateMsgBtn'')) w3))"
  define w5 where
    "w5 = snd (generationResume sampleCollaborators (AwaitGeneration sampleStatus 0) w4)"
  have e1: "w1 = sampleWorld
      \<lparr>provider := (provider sampleWorld)\<lparr>generationCancelToken := Some 0\<rparr>,
       surface := (surface sampleWorld)\<lparr>loading := {js ''generateMsgBtn''}\<rparr>,
       nextHandle := 1,
       effects := effects sampleWorld @ [NewTokenSource 0, Call GetGitStatus]\<rparr>"
    by (simp add: w1_def sampleWorld_eq eval_defs generation_defs)
  have e2: "w2 = w1\<lparr>effects := effects w1 @ [Call (GenerateDetailedCommitMessage sampleStatus 0)]\<rparr>"
    and r2: "fst (generationResume sampleCollaborators AwaitStatus w1)
               = Inr (Some (AwaitGeneration sampleStatus 0))"
    by (simp_all add: w2_def e1 sampleWorld_eq eval_defs generation_defs)
  have m: "generateCommitMessage [js ''src/app.ts''] [] = js ''fix: app.ts''"
    by (simp add: generateCommitMessage_def categorizeAll_def categorize_def js_def reTest_def
        reDocs_def reStyle_def reChore_def reFeat_def endsWith_def ciEq_def push_def
        emptyCategories_def lastSegment_def renderMessage_def)
  have e3: "w3 = w2
      \<lparr>provider := (provider w2)\<lparr>lastRefresh := 1005\<rparr>,
       surface := surface sampleWorld,
       env := (env w2)\<lparr>clock := 1010\<rparr>,
       effects := effects w2 @ [Call IsGitRepository, Call GetGitStatus, Call GetBranches,
          Call GetCurrentBranch, Call (GetCommitHistory 20), SetHtml (Some samplePage),
          PostMessage (ClearLoading (js ''refreshBtn''))]\<rparr>"
    by (simp add: w3_def e2 e1 sampleWorld_eq eval_defs generation_defs loadDocument_def
        stagedItems_def untrackedItems_def m)
  have e4: "w4 = w3
      \<lparr>provider := (provider w3)\<lparr>generationCancelToken := Some 1\<rparr>,
       surface := (surface w3)\<lparr>loading := {js ''generateMsgBtn''}\<rparr>,
       nextHandle := 2,
       effects := effects w3 @ [NewTokenSource 1, Call GetGitStatus]\<rparr>"
    by (simp add: w4_def e3 e2 e1 sampleWorld_eq eval_defs generation_defs)
  have e5: "w5 = w4
      \<lparr>provider := (provider w4)\<lparr>generationCancelToken := None\<rparr>,
       surface := (surface w4)\<lparr>loading := {}, commitMessage := js ''feat: add app''\<rparr>,
       effects := effects w4 @ [PostMessage (CommitMessageGenerated (js ''feat: add app'')),
          PostMessage (ClearLoading (js ''generateMsgBtn'')), DisposeToken 1]\<rparr>"
    by (simp add: w5_def e4 e3 e2 e1 sampleWorld_eq eval_defs generation_defs)
  have r6: "fst (generationResume sampleCollaborators AwaitStatus w5)
              = Inr (Some (AwaitFallbackStatus (typeError ''token'')))"
    by (simp add: e5 e4 e3 e2 e1 sampleWorld_eq eval_defs generation_defs)
  have "since sampleWorld w1 = [NewTokenSource 0, Call GetGitStatus]"
    "loading (surface w2) = {js ''generateMsgBtn''}" "loading (surface w3) = {}"
    "since w3 w4 = [NewTokenSource 1, Call GetGitStatus]"
    "generationCancelToken (provider w4) = Some 1"
    "since w4 w5 = [PostMessage (CommitMessageGenerated (js ''feat: add app'')),
                    PostMessage (ClearLoading (js ''generateMsgBtn'')), DisposeToken 1]"
    "commitMessage (surface w5) = js ''feat: add app''" "loading (surface w5) = {}"
    "DisposeToken 0 \<notin> set (effects w5)" "CancelToken 0 \<notin> set (effects w5)"
    "generationCancelToken (provider w5) = None"
    by (simp_all add: e5 e4 e3 e2 e1 sampleWorld_eq since_def js_eq_iff)
  then show ?thesis
    using r2 r6
    unfolding Let_def w1_def [symmetric] w2_def [symmetric] w3_def [symmetric]
      w4_def [symmetric] w5_def [symmetric]
    by blast
qed

theorem second_generation_leaks_witness:
  "(let w1 = snd (generationStart (onSurface (showLoading (js ''generateMsgBtn'')) sampleWorld));
        w2 = snd (generationResume sampleCollaborators AwaitStatus w1);
        w3 = refreshWithLoading sampleCollaborators w2;
        w4 = snd (generationStart (onSurface (showLoading (js ''generateMsgBtn'')) w3));
        w5 = snd (generationResume sampleCollaborators (AwaitGeneration sampleStatus 0) w4)
    in DisposeToken 0 \<notin> set (effects w5)
       \<and> CommitMessageGenerated (js ''feat: add app'') \<in> set (posted (since w4 w5)))"
  using second_generation_leaks unfolding Let_def by simp

subsection \<open>The loading state of a branch row\<close>

text \<open>
  Claim C2, at a failing input. The page shows the local branch \<open>feature\<close>. Its row is
  clicked, \<open>switchToBranchWithLoading\<close> marks the row \<open>branch-feature\<close> as loading and
  posts \<open>switchBranch\<close>; the checkout throws, the listener's \<open>catch\<close> posts
  \<open>clearAllLoading\<close>, whose list of ids has no branch row, and nothing is rendered: the
  row stays loading. The same row stays loading when \<open>removeBranchWithLoading\<close> is
  answered by dismissing the confirmation: then nothing is called and nothing posted.
\<close>

theorem branch_row_stays_loading:
  "(let w = sampleWorld\<lparr>env := (env sampleWorld)\<lparr>checkoutFails := True\<rparr>\<rparr>;
        w' = switchToBranchWithLoading sampleCollaborators (js ''feature'') w
    in calls (since w w') = [Git (GitCheckoutBranch (js ''feature''))]
       \<and> posted (since w w') = [ClearAllLoading]
       \<and> loading (surface w') = {js ''branch-feature''})
   \<and> (let w' = removeBranchWithLoading sampleCollaborators (js ''feature'') sampleWorld
      in calls (since sampleWorld w') = [] \<and> posted (since sampleWorld w') = []
         \<and> loading (surface w') = {js ''branch-feature''})"
  by (simp add: sampleWorld_eq eval_defs switchToBranchWithLoading_def removeBranchWithLoading_def
      handleSwitchBranch_def handleDeleteBranch_def onSurface_def setLoading_def
      onMessage_def clearLoading_def hasElement_def samplePage_def allLoadingIds_def
      sampleStatus_def js_def branchId_def sanitize_def isAlnum_def quoted_def failure_def)

theorem branch_row_stays_loading_witness:
  "js ''branch-feature''
     \<in> loading (surface (switchToBranchWithLoading sampleCollaborators (js ''feature'')
                             (sampleWorld\<lparr>env := (env sampleWorld)\<lparr>checkoutFails := True\<rparr>\<rparr>)))"
  using branch_row_stays_loading by (simp add: Let_def)

subsection \<open>The age of the cached status\<close>

text \<open>
  Claim C6, at a failing input. The status was cached by the load at time 1000. At time
  100000, the repository having changed meanwhile, \<open>loadMore\<close> is handled:
  \<open>_loadContent\<close> sets \<open>_lastRefresh\<close> to 100000 before \<open>_getHtmlContent\<close> compares it with
  the clock, so the status cached 99 seconds ago is served and rendered, and
  \<open>getGitStatus\<close>, which would answer with the changed status, is not called.
\<close>

theorem stale_status_served:
  "(let w = sampleWorld\<lparr>env := (env sampleWorld)
                \<lparr>clock := 100000,
                 repository := sampleStatus\<lparr>unstaged := [js ''README.md'']\<rparr>\<rparr>\<rparr>;
        w' = onDidReceiveMessage sampleCollaborators LoadMore w
    in lastRefresh (provider w) = 1000 \<and> clock (env w) = 100000
       \<and> cachedStatus (provider w) = Some sampleStatus
       \<and> calls (since w w') = [IsGitRepository, GetBranches, GetCurrentBranch, GetCommitHistory 50]
       \<and> map_option status (html (surface w')) = Some (Some sampleStatus)
       \<and> fst (getGitStatus sampleCollaborators (env w'))
           = Inr (sampleStatus\<lparr>unstaged := [js ''README.md'']\<rparr>))"
  by (simp add: sampleWorld_eq eval_defs loadDocument_def)

theorem stale_status_served_witness:
  "GetGitStatus \<notin> set (calls (since
       (sampleWorld\<lparr>env := (env sampleWorld)
          \<lparr>clock := 100000, repository := sampleStatus\<lparr>unstaged := [js ''README.md'']\<rparr>\<rparr>\<rparr>)
       (onDidReceiveMessage sampleCollaborators LoadMore
          (sampleWorld\<lparr>env := (env sampleWorld)
             \<lparr>clock := 100000, repository := sampleStatus\<lparr>unstaged := [js ''README.md'']\<rparr>\<rparr>\<rparr>))))"
  using stale_status_served by (simp add: Let_def)

end
